theory Spec2Isabelle
  imports Complex_Main "HOL-Library.Word"
begin

section \<open>Command-line parsing shared by the four programs\<close>

text \<open>
  All four \<^verbatim>\<open>main\<close> functions read the step number with
  \<^verbatim>\<open>const int stepNum = atol(argv[2]);\<close>.
  \<^verbatim>\<open>atol\<close> belongs to the C library, not to the repository; it is modelled as
  \<^verbatim>\<open>strtol(nptr, NULL, 10)\<close>: leading white space is skipped, one optional sign is
  read, then the longest run of decimal digits; no digit at all gives 0. Out-of-range
  values saturate at the bounds of a 64-bit \<^verbatim>\<open>long\<close> (the C standard leaves that case
  undefined for \<^verbatim>\<open>atol\<close>). The conversion of the \<^verbatim>\<open>long\<close> to \<^verbatim>\<open>int\<close> keeps the low 32
  bits, read as a signed number.
\<close>

definition isspace :: "char \<Rightarrow> bool" where
  "isspace c = (c \<in> set [CHR '' '', CHR 0x09, CHR 0x0A, CHR 0x0B, CHR 0x0C, CHR 0x0D])"

definition isdigit :: "char \<Rightarrow> bool" where
  "isdigit c = (48 \<le> (of_char c :: nat) \<and> (of_char c :: nat) \<le> 57)"

fun strtol_digits :: "int \<Rightarrow> string \<Rightarrow> int" where
  "strtol_digits acc [] = acc"
| "strtol_digits acc (c # cs) =
     (if isdigit c then strtol_digits (10 * acc + (of_char c - 48)) cs else acc)"

definition LONG_MAX :: int where
  "LONG_MAX = 9223372036854775807"

definition LONG_MIN :: int where
  "LONG_MIN = - 9223372036854775808"

definition atol :: "string \<Rightarrow> int" where
  "atol nptr =
     (let s = dropWhile isspace nptr;
          neg = (case s of [] \<Rightarrow> False | c # _ \<Rightarrow> c = CHR ''-'');
          ds = (case s of [] \<Rightarrow> []
                | c # cs \<Rightarrow> if c = CHR ''-'' \<or> c = CHR ''+'' then cs else s);
          v = strtol_digits 0 ds
      in if neg then max LONG_MIN (- v) else min LONG_MAX v)"

definition int_of_long :: "int \<Rightarrow> int" where
  "int_of_long v = sint (word_of_int v :: 32 word)"

text \<open>\<^verbatim>\<open>TString::EndsWith\<close>, used by the plots programs on the two file names.\<close>

definition EndsWith :: "string \<Rightarrow> string \<Rightarrow> bool" where
  "EndsWith str pat =
     (length pat \<le> length str \<and> drop (length str - length pat) str = pat)"


section \<open>Observable behaviour of a run\<close>

text \<open>
  A run is observed through the sequence of calls it makes on its collaborators (the
  columnar reader, the histogram objects, the output file) and through the way the
  process ends. A histogram is identified by the name it is constructed with, which
  is also the key under which it is written. Titles and binning of the constructors
  are not recorded.
\<close>

datatype message =
    Usage
  | InvalidStep int
  | FailedOpenInput string
  | FailedRetrieveTree string
  | Processing nat nat
  | NotPdf string
  | NotRoot string
  | UnableOpenInput string
  | UnableRetrieve
  | MissingNamed string

datatype action =
    Printf message
  | SetBranchStatus string bool
  | SetBranchAddress string
  | OpenOutput string
  | Construct string
  | GetEntry nat
  | EnterStep nat nat
  | Fill string real
  | FillW string real real
  | Fill2 string real real
  | Write string
  | CloseOutput

text \<open>
  \<open>Fill h x\<close> is \<^verbatim>\<open>h.Fill(x)\<close>, \<open>FillW h x w\<close> is \<^verbatim>\<open>h.Fill(x,w)\<close> on a
  one-dimensional histogram, \<open>Fill2 h x y\<close> is \<^verbatim>\<open>h.Fill(x,y)\<close> on the two-dimensional
  \<^verbatim>\<open>TH2I\<close>. \<open>EnterStep k i\<close> is a ghost mark: control entered the block of step \<open>k\<close>
  in the loop iteration of event \<open>i\<close>. It makes the empty (TODO) blocks visible.
\<close>

datatype fault = NullDeref | OutOfRange | NonFinite

datatype outcome = Exit int | Fault fault

text \<open>
  \<open>NullDeref\<close>: a method is called through a pointer that is still \<^verbatim>\<open>nullptr\<close>
  (undefined behaviour, in practice a segmentation fault). \<open>OutOfRange\<close>:
  \<^verbatim>\<open>std::vector::at\<close> throws \<^verbatim>\<open>std::out_of_range\<close>, which nothing catches.
  Neither is an exit with code 1.
\<close>

type_synonym comp = "action list \<times> fault option"

definition skip :: comp where
  "skip = ([], None)"

definition emit :: "action list \<Rightarrow> comp" where
  "emit acts = (acts, None)"

definition abort :: "fault \<Rightarrow> comp" where
  "abort f = ([], Some f)"

definition andThen :: "comp \<Rightarrow> comp \<Rightarrow> comp" where
  "andThen p q = (case snd p of None \<Rightarrow> (fst p @ fst q, snd q) | Some f \<Rightarrow> p)"

text \<open>\<^verbatim>\<open>p->size()\<close> and \<^verbatim>\<open>p->at(0)\<close> for a \<^verbatim>\<open>std::vector<float>* p\<close>.\<close>

definition vsize :: "real list option \<Rightarrow> (nat \<Rightarrow> comp) \<Rightarrow> comp" where
  "vsize p k = (case p of None \<Rightarrow> abort NullDeref | Some xs \<Rightarrow> k (length xs))"

definition at0 :: "real list option \<Rightarrow> (real \<Rightarrow> comp) \<Rightarrow> comp" where
  "at0 p k =
     (case p of None \<Rightarrow> abort NullDeref
      | Some [] \<Rightarrow> abort OutOfRange
      | Some (x # _) \<Rightarrow> k x)"

text \<open>The event loop: \<^verbatim>\<open>for (iEvent = 0; iEvent < numEvents; ++iEvent)\<close>.\<close>

fun event_loop :: "(nat \<Rightarrow> 'e \<Rightarrow> comp) \<Rightarrow> nat \<Rightarrow> 'e list \<Rightarrow> comp" where
  "event_loop body iEvent [] = skip"
| "event_loop body iEvent (e # es) = andThen (body iEvent e) (event_loop body (Suc iEvent) es)"

text \<open>Which calls of a trace fill a given histogram.\<close>

fun fills :: "string \<Rightarrow> action \<Rightarrow> bool" where
  "fills h (Fill n x) = (n = h)"
| "fills h (FillW n x w) = (n = h)"
| "fills h (Fill2 n x y) = (n = h)"
| "fills h _ = False"


section \<open>The input: files, trees, columns\<close>

text \<open>
  A tree holds the names of its columns and its entries. A file maps object names to
  trees; the file system maps file names to files (\<open>None\<close>: \<^verbatim>\<open>TFile::Open\<close> gives no
  usable file). \<open>creatable\<close> says whether the output file can be opened with
  \<^verbatim>\<open>RECREATE\<close>; the code never tests the pointer it gets back.
\<close>

record 'e tree =
  branches :: "string list"
  entries :: "'e list"

record 'e world =
  files :: "string \<Rightarrow> (string \<Rightarrow> 'e tree option) option"
  creatable :: "string \<Rightarrow> bool"

text \<open>
  \<^verbatim>\<open>SetBranchStatus(name,1)\<close> followed by \<^verbatim>\<open>SetBranchAddress(name,&var)\<close> for each
  column of a step. The return codes are not looked at: on a column the tree does not
  have, the reader reports an error and the variable keeps its initial value.
\<close>

definition wire :: "string list \<Rightarrow> action list" where
  "wire bs = map (\<lambda>b. SetBranchStatus b True) bs @ map SetBranchAddress bs"


section \<open>jetRecoExp.cpp: the base-jets reconstruction program\<close>

record event =
  col_mu_average :: real
  col_NPV :: nat
  col_EventWeight :: real

record exp_event = event +
  RecoJets_R4_pt :: "real list"
  RecoJets_R4_eta :: "real list"
  RecoJets_R4_phi :: "real list"
  RecoJets_R4_m :: "real list"
  TruthJets_R4_pt :: "real list"
  TruthJets_R4_eta :: "real list"
  TruthJets_R4_phi :: "real list"
  TruthJets_R4_m :: "real list"
  RecoJets_R4_jvf :: "real list"
  TrackJets_R4_pt :: "real list"
  TrackJets_R4_eta :: "real list"
  TrackJets_R4_phi :: "real list"
  TrackJets_R4_m :: "real list"

definition exp_branches1 :: "string list" where
  "exp_branches1 = [''mu_average'', ''NPV'']"

definition exp_branches2 :: "string list" where
  "exp_branches2 =
     [''EventWeight'',
      ''RecoJets_R4_pt'', ''RecoJets_R4_eta'', ''RecoJets_R4_phi'', ''RecoJets_R4_m'',
      ''TruthJets_R4_pt'', ''TruthJets_R4_eta'', ''TruthJets_R4_phi'', ''TruthJets_R4_m'']"

definition exp_branches4 :: "string list" where
  "exp_branches4 =
     [''RecoJets_R4_jvf'',
      ''TrackJets_R4_pt'', ''TrackJets_R4_eta'', ''TrackJets_R4_phi'', ''TrackJets_R4_m'']"

text \<open>Steps 3 and 5 add no branches.\<close>

definition exp_wiring :: "int \<Rightarrow> action list" where
  "exp_wiring stepNum =
     (if stepNum = 0 \<or> stepNum \<ge> 1
      then SetBranchStatus ''*'' False # wire exp_branches1 else []) @
     (if stepNum = 0 \<or> stepNum \<ge> 2 then wire exp_branches2 else []) @
     (if stepNum = 0 \<or> stepNum \<ge> 4 then wire exp_branches4 else [])"

definition exp_hists1 :: "string list" where
  "exp_hists1 = [''Step1_mu'', ''Step1_npv'', ''Step1_mu_npv'']"

definition exp_hists2 :: "string list" where
  "exp_hists2 =
     [''Step2_RecoJet_pt_noweight'', ''Step2_RecoJet_pt'',
      ''Step2_TruthJet_pt_noweight'', ''Step2_TruthJet_pt'']"

definition exp_hists3 :: "string list" where
  "exp_hists3 =
     [''Step3_RecoJet_njets_lowmu'', ''Step3_RecoJet_njets_midmu'',
      ''Step3_RecoJet_njets_highmu'',
      ''Step3_TruthJet_njets_lowmu'', ''Step3_TruthJet_njets_midmu'',
      ''Step3_TruthJet_njets_highmu'',
      ''Step3_RecoJets_njets_2D'', ''Step3_TruthJets_njets_2D'']"

definition exp_hists4 :: "string list" where
  "exp_hists4 =
     [''Step4_RecoJet_jvf_pt20'', ''Step4_RecoJet_jvf_pt60'', ''Step4_RecoJet_jvf_pt100'',
      ''Step4_RecoJet_pt_jvf'',
      ''Step4_TrackJet_pt'',
      ''Step4_TrackJet_njets_lowmu'', ''Step4_TrackJet_njets_midmu'',
      ''Step4_TrackJet_njets_highmu'',
      ''Step4_TrackJets_njets_2D'']"

definition exp_hists5 :: "string list" where
  "exp_hists5 =
     [''Step5_DRtruth_reco'', ''Step5_DRtruth_reco_jvf'', ''Step5_DRtruth_track'',
      ''Step5_response_reco_pt20'', ''Step5_response_reco_pt100'',
      ''Step5_response_reco_pt1000'',
      ''Step5_response_track_pt20'', ''Step5_response_track_pt100'',
      ''Step5_response_track_pt1000'']"

text \<open>
  The histogram objects are local variables of \<^verbatim>\<open>main\<close>, constructed one after the
  other right after the output file is opened, under no condition.
\<close>

definition exp_prepare :: "string \<Rightarrow> action list" where
  "exp_prepare outFileName =
     OpenOutput outFileName #
     map Construct (exp_hists1 @ exp_hists2 @ exp_hists3 @ exp_hists4 @ exp_hists5)"

text \<open>
  The variables the loop body reads after \<^verbatim>\<open>inTree->GetEntry(iEvent)\<close>. A scalar
  starts at 0 and a vector pointer at \<^verbatim>\<open>nullptr\<close>; \<^verbatim>\<open>GetEntry\<close> stores into a
  variable only when its step wired the branch and the tree has the column. The
  eleven other vector pointers are wired in the same way and never read by the body.
\<close>

record event_vars =
  mu_average :: real
  NPV :: nat
  EventWeight :: real

record exp_vars = event_vars +
  RecoJet_pt :: "real list option"
  TruthJet_pt :: "real list option"

definition exp_GetEntry :: "int \<Rightarrow> exp_event tree \<Rightarrow> exp_event \<Rightarrow> exp_vars" where
  "exp_GetEntry stepNum inTree e =
     \<lparr> mu_average =
         (if (stepNum = 0 \<or> stepNum \<ge> 1) \<and> ''mu_average'' \<in> set (branches inTree)
          then col_mu_average e else 0),
       NPV =
         (if (stepNum = 0 \<or> stepNum \<ge> 1) \<and> ''NPV'' \<in> set (branches inTree)
          then col_NPV e else 0),
       EventWeight =
         (if (stepNum = 0 \<or> stepNum \<ge> 2) \<and> ''EventWeight'' \<in> set (branches inTree)
          then col_EventWeight e else 0),
       RecoJet_pt =
         (if (stepNum = 0 \<or> stepNum \<ge> 2) \<and> ''RecoJets_R4_pt'' \<in> set (branches inTree)
          then Some (RecoJets_R4_pt e) else None),
       TruthJet_pt =
         (if (stepNum = 0 \<or> stepNum \<ge> 2) \<and> ''TruthJets_R4_pt'' \<in> set (branches inTree)
          then Some (TruthJets_R4_pt e) else None) \<rparr>"

definition exp_step1 :: "exp_vars \<Rightarrow> comp" where
  "exp_step1 v =
     emit [Fill ''Step1_mu'' (mu_average v),
           Fill ''Step1_npv'' (real (NPV v)),
           Fill2 ''Step1_mu_npv'' (mu_average v) (real (NPV v))]"

definition exp_step2 :: "exp_vars \<Rightarrow> comp" where
  "exp_step2 v =
     andThen
       (vsize (RecoJet_pt v) (\<lambda>n.
          if 0 < n then
            at0 (RecoJet_pt v) (\<lambda>x.
              andThen (emit [Fill ''Step2_RecoJet_pt_noweight'' x])
                (at0 (RecoJet_pt v) (\<lambda>y.
                   emit [FillW ''Step2_RecoJet_pt'' y (EventWeight v)])))
          else skip))
       (vsize (TruthJet_pt v) (\<lambda>n.
          if 0 < n then
            at0 (TruthJet_pt v) (\<lambda>x.
              andThen (emit [Fill ''Step2_TruthJet_pt_noweight'' x])
                (at0 (TruthJet_pt v) (\<lambda>y.
                   emit [FillW ''Step2_TruthJet_pt'' y (EventWeight v)])))
          else skip))"

text \<open>The blocks of steps 3, 4 and 5 hold a TODO comment and no statement.\<close>

definition exp_process :: "int \<Rightarrow> nat \<Rightarrow> exp_vars \<Rightarrow> comp" where
  "exp_process stepNum iEvent v =
     andThen (if stepNum = 0 \<or> stepNum \<ge> 1
              then andThen (emit [EnterStep 1 iEvent]) (exp_step1 v) else skip)
    (andThen (if stepNum = 0 \<or> stepNum \<ge> 2
              then andThen (emit [EnterStep 2 iEvent]) (exp_step2 v) else skip)
    (andThen (if stepNum = 0 \<or> stepNum \<ge> 3 then emit [EnterStep 3 iEvent] else skip)
    (andThen (if stepNum = 0 \<or> stepNum \<ge> 4 then emit [EnterStep 4 iEvent] else skip)
             (if stepNum = 0 \<or> stepNum \<ge> 5 then emit [EnterStep 5 iEvent] else skip))))"

definition progress :: "nat \<Rightarrow> nat \<Rightarrow> action list" where
  "progress iEvent numEvents =
     (if iEvent mod 10000 = 0 then [Printf (Processing iEvent numEvents)] else [])"

definition exp_body :: "int \<Rightarrow> exp_event tree \<Rightarrow> nat \<Rightarrow> exp_event \<Rightarrow> comp" where
  "exp_body stepNum inTree iEvent e =
     andThen (emit (progress iEvent (length (entries inTree)) @ [GetEntry iEvent]))
       (exp_process stepNum iEvent (exp_GetEntry stepNum inTree e))"

definition exp_writes :: "int \<Rightarrow> action list" where
  "exp_writes stepNum =
     (if stepNum = 0 \<or> stepNum \<ge> 1 then map Write exp_hists1 else []) @
     (if stepNum = 0 \<or> stepNum \<ge> 2 then map Write exp_hists2 else []) @
     (if stepNum = 0 \<or> stepNum \<ge> 3 then map Write exp_hists3 else []) @
     (if stepNum = 0 \<or> stepNum \<ge> 4 then map Write exp_hists4 else []) @
     (if stepNum = 0 \<or> stepNum \<ge> 5 then map Write exp_hists5 else [])"

text \<open>
  What follows the event loop: \<^verbatim>\<open>outFile->cd()\<close>, the gated \<^verbatim>\<open>Write\<close> calls,
  \<^verbatim>\<open>outFile->Close()\<close>, \<^verbatim>\<open>return 0\<close>.
\<close>

definition save :: "bool \<Rightarrow> action list \<Rightarrow> comp \<Rightarrow> action list \<times> outcome" where
  "save out_ok writes c =
     (case snd c of
        Some f \<Rightarrow> (fst c, Fault f)
      | None \<Rightarrow>
          if out_ok then (fst c @ writes @ [CloseOutput], Exit 0)
          else (fst c, Fault NullDeref))"

definition exp_run ::
  "exp_event world \<Rightarrow> string \<Rightarrow> int \<Rightarrow> string \<Rightarrow> string \<Rightarrow> action list \<times> outcome" where
  "exp_run w outFileName stepNum inTreeName inFileName =
     (if stepNum < 0 \<or> stepNum > 5 then ([Printf (InvalidStep stepNum)], Exit 1)
      else case files w inFileName of
        None \<Rightarrow> ([Printf (FailedOpenInput inFileName)], Exit 1)
      | Some inFile \<Rightarrow>
         (case inFile inTreeName of
            None \<Rightarrow> ([Printf (FailedRetrieveTree inTreeName)], Exit 1)
          | Some inTree \<Rightarrow>
              save (creatable w outFileName) (exp_writes stepNum)
                (andThen (emit (exp_wiring stepNum @ exp_prepare outFileName))
                   (event_loop (exp_body stepNum inTree) 0 (entries inTree)))))"

definition exp_main :: "exp_event world \<Rightarrow> string list \<Rightarrow> action list \<times> outcome" where
  "exp_main w argv =
     (if length argv < 5 then ([Printf Usage], Exit 1)
      else exp_run w (argv ! 1) (int_of_long (atol (argv ! 2))) (argv ! 3) (argv ! 4))"


section \<open>jetRecoGroom.cpp: the large-radius reconstruction program\<close>

text \<open>
  \<^verbatim>\<open>isTruth\<close> is the constant \<^verbatim>\<open>false\<close>, so the jet columns are the
  \<^verbatim>\<open>RecoJets_R10\<close> ones and the constituents are the \<^verbatim>\<open>Clusters\<close>.
\<close>

record groom_event = event +
  RecoJets_R10_pt :: "real list"
  RecoJets_R10_m :: "real list"
  RecoJets_R10_Trimmed_pt :: "real list"
  RecoJets_R10_Trimmed_m :: "real list"
  Clusters_pt :: "real list"
  Clusters_eta :: "real list"
  Clusters_phi :: "real list"
  Clusters_m :: "real list"

definition groom_branches1 :: "string list" where
  "groom_branches1 = [''mu_average'', ''NPV'']"

definition groom_branches2 :: "string list" where
  "groom_branches2 =
     [''EventWeight'', ''RecoJets_R10_pt'', ''RecoJets_R10_m'',
      ''RecoJets_R10_Trimmed_pt'', ''RecoJets_R10_Trimmed_m'']"

definition groom_branches3 :: "string list" where
  "groom_branches3 = [''Clusters_pt'', ''Clusters_eta'', ''Clusters_phi'', ''Clusters_m'']"

text \<open>Steps 4 and 5 add no branches.\<close>

definition groom_wiring :: "int \<Rightarrow> action list" where
  "groom_wiring stepNum =
     (if stepNum = 0 \<or> stepNum \<ge> 1
      then SetBranchStatus ''*'' False # wire groom_branches1 else []) @
     (if stepNum = 0 \<or> stepNum \<ge> 2 then wire groom_branches2 else []) @
     (if stepNum = 0 \<or> stepNum \<ge> 3 then wire groom_branches3 else [])"

definition groom_hists1 :: "string list" where
  "groom_hists1 = [''Step1_mu'', ''Step1_npv'']"

definition groom_hists2 :: "string list" where
  "groom_hists2 =
     [''Step2_UngroomPt_noweight'', ''Step2_UngroomPt'', ''Step2_TrimmedPt'',
      ''Step2_UngroomMass'', ''Step2_TrimmedMass'']"

definition groom_hists3 :: "string list" where
  "groom_hists3 =
     [''Step3_MyUngroomPt_noweight'', ''Step3_MyUngroomPt'',
      ''Step3_MyTrimmedPt_noweight'', ''Step3_MyTrimmedPt'']"

definition groom_hists4 :: "string list" where
  "groom_hists4 =
     [''Step4_MyPrunedPt'', ''Step4_MyPrunedMass'',
      ''Step4_MySDPt'', ''Step4_MySDMass'',
      ''Step4_MyRSDPt'', ''Step4_MyRSDMass'',
      ''Step4_MyBUSDPt'', ''Step4_MyBUSDMass'',
      ''Step4_MyBUSDTPt'', ''Step4_MyBUSDTMass'']"

definition groom_hists5 :: "string list" where
  "groom_hists5 =
     [''Step5_Ungroomed_D2'', ''Step5_Ungroomed_Tau32'',
      ''Step5_Trimmed_D2'', ''Step5_Trimmed_Tau32'',
      ''Step5_Pruned_D2'', ''Step5_Pruned_Tau32'',
      ''Step5_SD_D2'', ''Step5_SD_Tau32'',
      ''Step5_RSD_D2'', ''Step5_RSD_Tau32'',
      ''Step5_BUSD_D2'', ''Step5_BUSD_Tau32'',
      ''Step5_BUSDT_D2'', ''Step5_BUSDT_Tau32'']"

definition groom_prepare :: "string \<Rightarrow> action list" where
  "groom_prepare outFileName =
     OpenOutput outFileName #
     map Construct (groom_hists1 @ groom_hists2 @ groom_hists3 @ groom_hists4 @ groom_hists5)"

record groom_vars = event_vars +
  jet_R10_ungroom_pt :: "real list option"
  jet_R10_ungroom_m :: "real list option"
  jet_R10_trimmed_pt :: "real list option"
  jet_R10_trimmed_m :: "real list option"
  cluster_pt :: "real list option"
  cluster_eta :: "real list option"
  cluster_phi :: "real list option"
  cluster_m :: "real list option"

definition groom_GetEntry :: "int \<Rightarrow> groom_event tree \<Rightarrow> groom_event \<Rightarrow> groom_vars" where
  "groom_GetEntry stepNum inTree e =
     \<lparr> mu_average =
         (if (stepNum = 0 \<or> stepNum \<ge> 1) \<and> ''mu_average'' \<in> set (branches inTree)
          then col_mu_average e else 0),
       NPV =
         (if (stepNum = 0 \<or> stepNum \<ge> 1) \<and> ''NPV'' \<in> set (branches inTree)
          then col_NPV e else 0),
       EventWeight =
         (if (stepNum = 0 \<or> stepNum \<ge> 2) \<and> ''EventWeight'' \<in> set (branches inTree)
          then col_EventWeight e else 0),
       jet_R10_ungroom_pt =
         (if (stepNum = 0 \<or> stepNum \<ge> 2) \<and> ''RecoJets_R10_pt'' \<in> set (branches inTree)
          then Some (RecoJets_R10_pt e) else None),
       jet_R10_ungroom_m =
         (if (stepNum = 0 \<or> stepNum \<ge> 2) \<and> ''RecoJets_R10_m'' \<in> set (branches inTree)
          then Some (RecoJets_R10_m e) else None),
       jet_R10_trimmed_pt =
         (if (stepNum = 0 \<or> stepNum \<ge> 2)
             \<and> ''RecoJets_R10_Trimmed_pt'' \<in> set (branches inTree)
          then Some (RecoJets_R10_Trimmed_pt e) else None),
       jet_R10_trimmed_m =
         (if (stepNum = 0 \<or> stepNum \<ge> 2)
             \<and> ''RecoJets_R10_Trimmed_m'' \<in> set (branches inTree)
          then Some (RecoJets_R10_Trimmed_m e) else None),
       cluster_pt =
         (if (stepNum = 0 \<or> stepNum \<ge> 3) \<and> ''Clusters_pt'' \<in> set (branches inTree)
          then Some (Clusters_pt e) else None),
       cluster_eta =
         (if (stepNum = 0 \<or> stepNum \<ge> 3) \<and> ''Clusters_eta'' \<in> set (branches inTree)
          then Some (Clusters_eta e) else None),
       cluster_phi =
         (if (stepNum = 0 \<or> stepNum \<ge> 3) \<and> ''Clusters_phi'' \<in> set (branches inTree)
          then Some (Clusters_phi e) else None),
       cluster_m =
         (if (stepNum = 0 \<or> stepNum \<ge> 3) \<and> ''Clusters_m'' \<in> set (branches inTree)
          then Some (Clusters_m e) else None) \<rparr>"

definition groom_step1 :: "groom_vars \<Rightarrow> comp" where
  "groom_step1 v =
     emit [Fill ''Step1_mu'' (mu_average v), Fill ''Step1_npv'' (real (NPV v))]"

text \<open>
  Step 2. Only the size of the ungroomed pT vector is tested; the leading entries of
  the three other vectors are then read with \<^verbatim>\<open>at(0)\<close>. The two mass fills are
  guarded by \<^verbatim>\<open>> 400.e3\<close> on the pT of the same jet kind.
\<close>

definition groom_step2 :: "groom_vars \<Rightarrow> comp" where
  "groom_step2 v =
     vsize (jet_R10_ungroom_pt v) (\<lambda>n.
       if 0 < n then
         at0 (jet_R10_ungroom_pt v) (\<lambda>u_pt.
           andThen
             (emit [Fill ''Step2_UngroomPt_noweight'' u_pt,
                    FillW ''Step2_UngroomPt'' u_pt (EventWeight v)])
             (at0 (jet_R10_trimmed_pt v) (\<lambda>t_pt.
                andThen (emit [FillW ''Step2_TrimmedPt'' t_pt (EventWeight v)])
               (andThen
                  (if u_pt > 400000 then
                     at0 (jet_R10_ungroom_m v) (\<lambda>u_m.
                       emit [FillW ''Step2_UngroomMass'' u_m (EventWeight v)])
                   else skip)
                  (if t_pt > 400000 then
                     at0 (jet_R10_trimmed_m v) (\<lambda>t_m.
                       emit [FillW ''Step2_TrimmedMass'' t_m (EventWeight v)])
                   else skip)))))
       else skip)"

text \<open>
  The jet-clustering library is a collaborator outside the repository. It enters the
  model as three functions: \<open>akt10_jets\<close> is the chain from the cluster four-vectors
  (given as pT, eta, phi, m) to \<^verbatim>\<open>sorted_by_pt(cs.inclusive_jets())\<close> for the anti-kt
  R = 1.0 definition, \<open>trimmer\<close> is the \<^verbatim>\<open>Filter\<close> transformer, \<open>jet_pt\<close> is
  \<^verbatim>\<open>PseudoJet::pt()\<close>.
\<close>

record 'j fastjet =
  akt10_jets :: "(real \<times> real \<times> real \<times> real) list \<Rightarrow> 'j list"
  trimmer :: "'j \<Rightarrow> 'j"
  jet_pt :: "'j \<Rightarrow> real"

text \<open>\<^verbatim>\<open>p->at(i)\<close> as a value, and the loop that converts the clusters.\<close>

definition at_i :: "real list option \<Rightarrow> nat \<Rightarrow> fault + real" where
  "at_i p i =
     (case p of None \<Rightarrow> Inl NullDeref
      | Some xs \<Rightarrow> if i < length xs then Inr (xs ! i) else Inl OutOfRange)"

fun convert_clusters ::
  "groom_vars \<Rightarrow> nat list \<Rightarrow> fault + (real \<times> real \<times> real \<times> real) list" where
  "convert_clusters v [] = Inr []"
| "convert_clusters v (iClus # rest) =
     (case at_i (cluster_pt v) iClus of Inl f \<Rightarrow> Inl f | Inr pt \<Rightarrow>
      case at_i (cluster_eta v) iClus of Inl f \<Rightarrow> Inl f | Inr eta \<Rightarrow>
      case at_i (cluster_phi v) iClus of Inl f \<Rightarrow> Inl f | Inr phi \<Rightarrow>
      case at_i (cluster_m v) iClus of Inl f \<Rightarrow> Inl f | Inr m \<Rightarrow>
      case convert_clusters v rest of Inl f \<Rightarrow> Inl f
      | Inr cs \<Rightarrow> Inr ((pt, eta, phi, m) # cs))"

text \<open>
  Steps 3, 4 and 5. The block of step 4 stands inside the block of step 3, after its
  fills, and the block of step 5 inside the block of step 4; both hold TODO comments
  only. The statement \<^verbatim>\<open>printf(cluster_pt->at(iClus));\<close> in the conversion loop
  passes a \<^verbatim>\<open>float\<close> where a format string is expected; it is taken as a debugging
  print without effect on the histograms.
\<close>

definition groom_step3 :: "'j fastjet \<Rightarrow> int \<Rightarrow> nat \<Rightarrow> groom_vars \<Rightarrow> comp" where
  "groom_step3 fj stepNum iEvent v =
     vsize (cluster_pt v) (\<lambda>n.
       case convert_clusters v [0..<n] of
         Inl f \<Rightarrow> abort f
       | Inr clusters \<Rightarrow>
           andThen
             (case akt10_jets fj clusters of
                [] \<Rightarrow> skip
              | ungroomed # _ \<Rightarrow>
                  emit [Fill ''Step3_MyUngroomPt_noweight'' (jet_pt fj ungroomed),
                        FillW ''Step3_MyUngroomPt'' (jet_pt fj ungroomed) (EventWeight v),
                        Fill ''Step3_MyTrimmedPt_noweight'' (jet_pt fj (trimmer fj ungroomed)),
                        FillW ''Step3_MyTrimmedPt'' (jet_pt fj (trimmer fj ungroomed))
                          (EventWeight v)])
             (if stepNum = 0 \<or> stepNum \<ge> 4 then
                andThen (emit [EnterStep 4 iEvent])
                  (if stepNum = 0 \<or> stepNum \<ge> 5 then emit [EnterStep 5 iEvent] else skip)
              else skip))"

definition groom_process :: "'j fastjet \<Rightarrow> int \<Rightarrow> nat \<Rightarrow> groom_vars \<Rightarrow> comp" where
  "groom_process fj stepNum iEvent v =
     andThen (if stepNum = 0 \<or> stepNum \<ge> 1
              then andThen (emit [EnterStep 1 iEvent]) (groom_step1 v) else skip)
    (andThen (if stepNum = 0 \<or> stepNum \<ge> 2
              then andThen (emit [EnterStep 2 iEvent]) (groom_step2 v) else skip)
             (if stepNum = 0 \<or> stepNum \<ge> 3
              then andThen (emit [EnterStep 3 iEvent]) (groom_step3 fj stepNum iEvent v)
              else skip))"

definition groom_body ::
  "'j fastjet \<Rightarrow> int \<Rightarrow> groom_event tree \<Rightarrow> nat \<Rightarrow> groom_event \<Rightarrow> comp" where
  "groom_body fj stepNum inTree iEvent e =
     andThen (emit (progress iEvent (length (entries inTree)) @ [GetEntry iEvent]))
       (groom_process fj stepNum iEvent (groom_GetEntry stepNum inTree e))"

definition groom_writes :: "int \<Rightarrow> action list" where
  "groom_writes stepNum =
     (if stepNum = 0 \<or> stepNum \<ge> 1 then map Write groom_hists1 else []) @
     (if stepNum = 0 \<or> stepNum \<ge> 2 then map Write groom_hists2 else []) @
     (if stepNum = 0 \<or> stepNum \<ge> 3 then map Write groom_hists3 else []) @
     (if stepNum = 0 \<or> stepNum \<ge> 4 then map Write groom_hists4 else []) @
     (if stepNum = 0 \<or> stepNum \<ge> 5 then map Write groom_hists5 else [])"

definition groom_run ::
  "'j fastjet \<Rightarrow> groom_event world \<Rightarrow> string \<Rightarrow> int \<Rightarrow> string \<Rightarrow> string
     \<Rightarrow> action list \<times> outcome" where
  "groom_run fj w outFileName stepNum inTreeName inFileName =
     (if stepNum < 0 \<or> stepNum > 5 then ([Printf (InvalidStep stepNum)], Exit 1)
      else case files w inFileName of
        None \<Rightarrow> ([Printf (FailedOpenInput inFileName)], Exit 1)
      | Some inFile \<Rightarrow>
         (case inFile inTreeName of
            None \<Rightarrow> ([Printf (FailedRetrieveTree inTreeName)], Exit 1)
          | Some inTree \<Rightarrow>
              save (creatable w outFileName) (groom_writes stepNum)
                (andThen (emit (groom_wiring stepNum @ groom_prepare outFileName))
                   (event_loop (groom_body fj stepNum inTree) 0 (entries inTree)))))"

definition groom_main ::
  "'j fastjet \<Rightarrow> groom_event world \<Rightarrow> string list \<Rightarrow> action list \<times> outcome" where
  "groom_main fj w argv =
     (if length argv < 5 then ([Printf Usage], Exit 1)
      else groom_run fj w (argv ! 1) (int_of_long (atol (argv ! 2))) (argv ! 3) (argv ! 4))"


section \<open>The plots programs: histograms read back from a file\<close>

text \<open>
  An object of the histogram file: its class, the x axis (number of bins and the two
  limits) and the bin contents, underflow first and overflow last. Contents and limits
  are real numbers; the rounding of \<^verbatim>\<open>double\<close> arithmetic is not modelled.
\<close>

datatype hclass = TH1I | TH1F | TH2I | TProfile2D | OtherClass

record hobj =
  cls :: hclass
  nbins :: nat
  xmin :: real
  xmax :: real
  bins :: "real list"

type_synonym hfile = "string \<Rightarrow> hobj option"

type_synonym hvars = "string \<Rightarrow> hobj option"

text \<open>
  \<^verbatim>\<open>getHist<C>\<close>: \<^verbatim>\<open>dynamic_cast<C*>(inFile.Get(histName))\<close>; on a null result the
  two messages are printed and \<^verbatim>\<open>nullptr\<close> is returned. None of the four classes
  asked for derives from another one, so the cast succeeds on an object of class \<open>C\<close>
  only.
\<close>

definition getHist :: "hclass \<Rightarrow> hfile \<Rightarrow> string \<Rightarrow> hobj option \<times> message list" where
  "getHist C inFile histName =
     (case inFile histName of
        None \<Rightarrow> (None, [UnableRetrieve, MissingNamed histName])
      | Some h \<Rightarrow>
          if cls h = C then (Some h, [])
          else (None, [UnableRetrieve, MissingNamed histName]))"

text \<open>
  The pointer variables of \<^verbatim>\<open>main\<close> are kept in a store indexed by the name of the
  histogram each one is assigned from; all start as \<^verbatim>\<open>nullptr\<close>. One step of the
  retrieval assigns its variables in order and then returns 1 when one of the
  variables it tests is null.
\<close>

fun retrieve :: "hfile \<Rightarrow> (hclass \<times> string) list \<Rightarrow> hvars \<Rightarrow> hvars \<times> message list" where
  "retrieve inFile [] vars = (vars, [])"
| "retrieve inFile ((C, n) # gets) vars =
     (let r = getHist C inFile n;
          rest = retrieve inFile gets (vars(n := fst r))
      in (fst rest, snd r @ snd rest))"

definition fetch_step ::
  "bool \<Rightarrow> hfile \<Rightarrow> (hclass \<times> string) list \<Rightarrow> string list
     \<Rightarrow> message list + hvars \<times> message list \<Rightarrow> message list + hvars \<times> message list" where
  "fetch_step gate inFile gets tested r =
     (case r of
        Inl ms \<Rightarrow> Inl ms
      | Inr (vars, ms) \<Rightarrow>
          if gate then
            (let got = retrieve inFile gets vars in
             if list_ex (\<lambda>n. fst got n = None) tested then Inl (ms @ snd got)
             else Inr (fst got, ms @ snd got))
          else Inr (vars, ms))"

text \<open>
  \<^verbatim>\<open>scaleMeVToGeV\<close>: the two limits of the x axis are read and set again, divided
  by \<^verbatim>\<open>1.e3\<close>. \<^verbatim>\<open>TAxis::SetLimits\<close> stores the two numbers and nothing else.
\<close>

definition scaleMeVToGeV :: "hobj \<Rightarrow> hobj" where
  "scaleMeVToGeV hist = hist \<lparr> xmin := xmin hist / 1000, xmax := xmax hist / 1000 \<rparr>"

text \<open>
  \<^verbatim>\<open>Integral()\<close> sums the contents of the bins 1 to \<open>nbins\<close> (no axis range is set on a
  histogram before it is normalised); \<^verbatim>\<open>Scale(c)\<close> multiplies every content by
  \<open>c\<close>. The normalisation is \<^verbatim>\<open>h->Scale(1./h->Integral())\<close>. With a zero integral the
  factor is not a finite number; real numbers have no such value, so the model
  reports the fault \<open>NonFinite\<close> and stops there, although the program itself runs on
  with non-finite contents.
\<close>

definition Integral :: "hobj \<Rightarrow> real" where
  "Integral h = sum_list (take (nbins h) (drop 1 (bins h)))"

definition Scale :: "real \<Rightarrow> hobj \<Rightarrow> hobj" where
  "Scale c h = h \<lparr> bins := map (\<lambda>b. c * b) (bins h) \<rparr>"

definition normalise :: "hobj \<Rightarrow> hobj option" where
  "normalise h = (if Integral h = 0 then None else Some (Scale (1 / Integral h) h))"

text \<open>
  The drawing code of a step is straight-line code over the pointer variables. Its
  calls are kept in order: \<open>Style\<close> stands for a run of cosmetic calls on one pointer
  (colours, titles, ranges, statistics box), \<open>Fit\<close> for the Gaussian fit over a
  window, \<open>PrintPage\<close> for \<^verbatim>\<open>canvas.Print(outFileName)\<close>. Legends take pointers that
  were used before and are left out. Every call through a null pointer is a fault.
\<close>

datatype rop =
    Style string
  | Normalise string
  | MeVToGeV string
  | Draw string
  | DrawSame string
  | Fit string real real
  | PrintPage

record rstate =
  hvars :: hvars
  pad :: "string list"
  pages :: "(string \<times> hobj) list list"

definition snapshot :: "rstate \<Rightarrow> (string \<times> hobj) list" where
  "snapshot st =
     concat (map (\<lambda>n. case hvars st n of None \<Rightarrow> [] | Some h \<Rightarrow> [(n, h)]) (pad st))"

fun run_op :: "rop \<Rightarrow> rstate \<Rightarrow> fault + rstate" where
  "run_op (Style n) st = (case hvars st n of None \<Rightarrow> Inl NullDeref | Some h \<Rightarrow> Inr st)"
| "run_op (Normalise n) st =
     (case hvars st n of
        None \<Rightarrow> Inl NullDeref
      | Some h \<Rightarrow>
          (case normalise h of
             None \<Rightarrow> Inl NonFinite
           | Some h' \<Rightarrow> Inr (st \<lparr> hvars := (hvars st)(n := Some h') \<rparr>)))"
| "run_op (MeVToGeV n) st =
     (case hvars st n of
        None \<Rightarrow> Inl NullDeref
      | Some h \<Rightarrow> Inr (st \<lparr> hvars := (hvars st)(n := Some (scaleMeVToGeV h)) \<rparr>))"
| "run_op (Draw n) st =
     (case hvars st n of None \<Rightarrow> Inl NullDeref | Some h \<Rightarrow> Inr (st \<lparr> pad := [n] \<rparr>))"
| "run_op (DrawSame n) st =
     (case hvars st n of
        None \<Rightarrow> Inl NullDeref
      | Some h \<Rightarrow> Inr (st \<lparr> pad := pad st @ [n] \<rparr>))"
| "run_op (Fit n lo hi) st =
     (case hvars st n of None \<Rightarrow> Inl NullDeref | Some h \<Rightarrow> Inr st)"
| "run_op PrintPage st = Inr (st \<lparr> pages := pages st @ [snapshot st] \<rparr>)"

text \<open>The state reached and the fault that stopped the run, if any.\<close>

fun run_ops :: "rop list \<Rightarrow> rstate \<Rightarrow> rstate \<times> fault option" where
  "run_ops [] st = (st, None)"
| "run_ops (c # cs) st =
     (case run_op c st of Inl f \<Rightarrow> (st, Some f) | Inr st' \<Rightarrow> run_ops cs st')"

definition render_step :: "bool \<Rightarrow> rop list \<Rightarrow> rstate \<times> fault option \<Rightarrow> rstate \<times> fault option" where
  "render_step gate ops r =
     (case snd r of Some f \<Rightarrow> r | None \<Rightarrow> if gate then run_ops ops (fst r) else r)"

text \<open>
  The result of a plots program: the messages printed, the pages of the output
  document (\<open>None\<close> while the document was never opened), and how the process ended.
\<close>

type_synonym plots_result = "message list \<times> (string \<times> hobj) list list option \<times> outcome"

definition finish :: "message list \<Rightarrow> rstate \<times> fault option \<Rightarrow> plots_result" where
  "finish ms r =
     (case snd r of
        None \<Rightarrow> (ms, Some (pages (fst r)), Exit 0)
      | Some f \<Rightarrow> (ms, Some (pages (fst r)), Fault f))"

definition plots_main ::
  "(int \<Rightarrow> hfile \<Rightarrow> message list + hvars \<times> message list)
     \<Rightarrow> (int \<Rightarrow> rstate \<Rightarrow> rstate \<times> fault option)
     \<Rightarrow> (string \<Rightarrow> hfile option) \<Rightarrow> string list \<Rightarrow> plots_result" where
  "plots_main fetch render w argv =
     (if length argv < 4 then ([Usage], None, Exit 1)
      else
        let outFileName = argv ! 1;
            stepNum = int_of_long (atol (argv ! 2));
            inFileName = argv ! 3
        in
          if EndsWith outFileName ''.pdf'' then
            if EndsWith inFileName ''.root'' then
              if stepNum < 0 \<or> stepNum > 5 then ([InvalidStep stepNum], None, Exit 1)
              else
                (case w inFileName of
                   None \<Rightarrow> ([UnableOpenInput inFileName], None, Exit 1)
                 | Some inFile \<Rightarrow>
                     (case fetch stepNum inFile of
                        Inl ms \<Rightarrow> (ms, None, Exit 1)
                      | Inr (vars, ms) \<Rightarrow>
                          finish ms (render stepNum \<lparr> hvars = vars, pad = [], pages = [] \<rparr>)))
            else ([NotRoot inFileName], None, Exit 1)
          else ([NotPdf outFileName], None, Exit 1))"

text \<open>
  The two \<^verbatim>\<open>main\<close> functions of the plots programs have the same text up to the
  retrieval of the histograms and again from the closing \<^verbatim>\<open>canvas.Print\<close> on;
  \<open>plots_main\<close> is that common text, and each program supplies its retrieval and its
  drawing code.
\<close>


section \<open>jetRecoExp_plots.cpp\<close>

definition expp_gets1 :: "(hclass \<times> string) list" where
  "expp_gets1 = [(TH1I, ''Step1_mu''), (TH1I, ''Step1_npv''), (TH2I, ''Step1_mu_npv'')]"

definition expp_tested1 :: "string list" where
  "expp_tested1 = [''Step1_mu'', ''Step1_npv'', ''Step1_mu_npv'']"

definition expp_gets2 :: "(hclass \<times> string) list" where
  "expp_gets2 =
     [(TH1F, ''Step2_RecoJet_pt_noweight''), (TH1F, ''Step2_RecoJet_pt''),
      (TH1F, ''Step2_TruthJet_pt_noweight''), (TH1F, ''Step2_TruthJet_pt'')]"

definition expp_tested2 :: "string list" where
  "expp_tested2 =
     [''Step2_RecoJet_pt_noweight'', ''Step2_RecoJet_pt'',
      ''Step2_TruthJet_pt_noweight'', ''Step2_TruthJet_pt'']"

definition expp_gets3 :: "(hclass \<times> string) list" where
  "expp_gets3 =
     [(TH1F, ''Step3_RecoJet_njets_lowmu''), (TH1F, ''Step3_RecoJet_njets_midmu''),
      (TH1F, ''Step3_RecoJet_njets_highmu''),
      (TH1F, ''Step3_TruthJet_njets_lowmu''), (TH1F, ''Step3_TruthJet_njets_midmu''),
      (TH1F, ''Step3_TruthJet_njets_highmu''),
      (TProfile2D, ''Step3_RecoJets_njets_2D''), (TProfile2D, ''Step3_TruthJets_njets_2D'')]"

definition expp_tested3 :: "string list" where
  "expp_tested3 =
     [''Step3_RecoJet_njets_lowmu'', ''Step3_RecoJet_njets_midmu'',
      ''Step3_RecoJet_njets_highmu'',
      ''Step3_TruthJet_njets_lowmu'', ''Step3_TruthJet_njets_midmu'',
      ''Step3_TruthJet_njets_highmu'',
      ''Step3_RecoJets_njets_2D'', ''Step3_TruthJets_njets_2D'']"

definition expp_gets4 :: "(hclass \<times> string) list" where
  "expp_gets4 =
     [(TH1F, ''Step4_RecoJet_jvf_pt20''), (TH1F, ''Step4_RecoJet_jvf_pt60''),
      (TH1F, ''Step4_RecoJet_jvf_pt100''), (TH1F, ''Step4_RecoJet_pt_jvf''),
      (TH1F, ''Step4_TrackJet_pt''),
      (TH1F, ''Step4_TrackJet_njets_lowmu''), (TH1F, ''Step4_TrackJet_njets_midmu''),
      (TH1F, ''Step4_TrackJet_njets_highmu''),
      (TProfile2D, ''Step4_TrackJets_njets_2D'')]"

text \<open>
  The test after the retrieval of step 4 names \<^verbatim>\<open>hist_truth_pt\<close> (a variable of
  step 2) and neither \<^verbatim>\<open>hist_reco_pt_jvf\<close> nor \<^verbatim>\<open>hist_track_pt\<close>.
\<close>

definition expp_tested4 :: "string list" where
  "expp_tested4 =
     [''Step4_RecoJet_jvf_pt20'', ''Step4_RecoJet_jvf_pt60'', ''Step4_RecoJet_jvf_pt100'',
      ''Step4_TrackJet_njets_lowmu'', ''Step4_TrackJet_njets_midmu'',
      ''Step4_TrackJet_njets_highmu'',
      ''Step2_TruthJet_pt'', ''Step4_TrackJets_njets_2D'']"

definition expp_gets5 :: "(hclass \<times> string) list" where
  "expp_gets5 =
     [(TH1F, ''Step5_DRtruth_reco''), (TH1F, ''Step5_DRtruth_reco_jvf''),
      (TH1F, ''Step5_DRtruth_track''),
      (TH1F, ''Step5_response_reco_pt20''), (TH1F, ''Step5_response_reco_pt100''),
      (TH1F, ''Step5_response_reco_pt1000''),
      (TH1F, ''Step5_response_track_pt20''), (TH1F, ''Step5_response_track_pt100''),
      (TH1F, ''Step5_response_track_pt1000'')]"

definition expp_tested5 :: "string list" where
  "expp_tested5 =
     [''Step5_DRtruth_reco'', ''Step5_DRtruth_reco_jvf'', ''Step5_DRtruth_track'',
      ''Step5_response_reco_pt20'', ''Step5_response_reco_pt100'',
      ''Step5_response_reco_pt1000'',
      ''Step5_response_track_pt20'', ''Step5_response_track_pt100'',
      ''Step5_response_track_pt1000'']"

definition expp_fetch :: "int \<Rightarrow> hfile \<Rightarrow> message list + hvars \<times> message list" where
  "expp_fetch stepNum inFile =
     fetch_step (stepNum = 0 \<or> stepNum \<ge> 5) inFile expp_gets5 expp_tested5
    (fetch_step (stepNum = 0 \<or> stepNum \<ge> 4) inFile expp_gets4 expp_tested4
    (fetch_step (stepNum = 0 \<or> stepNum \<ge> 3) inFile expp_gets3 expp_tested3
    (fetch_step (stepNum = 0 \<or> stepNum \<ge> 2) inFile expp_gets2 expp_tested2
    (fetch_step (stepNum = 0 \<or> stepNum \<ge> 1) inFile expp_gets1 expp_tested1
       (Inr (\<lambda>n. None, []))))))"

definition expp_ops1 :: "rop list" where
  "expp_ops1 =
     [Style ''Step1_mu'', Draw ''Step1_mu'', PrintPage,
      Style ''Step1_npv'', Draw ''Step1_npv'', PrintPage,
      Style ''Step1_mu_npv'', Draw ''Step1_mu_npv'', PrintPage]"

definition expp_ops2 :: "rop list" where
  "expp_ops2 =
     [Style ''Step2_TruthJet_pt_noweight'', MeVToGeV ''Step2_TruthJet_pt_noweight'',
      Style ''Step2_TruthJet_pt_noweight'', Draw ''Step2_TruthJet_pt_noweight'',
      Style ''Step2_RecoJet_pt_noweight'', MeVToGeV ''Step2_RecoJet_pt_noweight'',
      DrawSame ''Step2_RecoJet_pt_noweight'', PrintPage,
      Style ''Step2_TruthJet_pt'', MeVToGeV ''Step2_TruthJet_pt'',
      Style ''Step2_TruthJet_pt'', Draw ''Step2_TruthJet_pt'',
      Style ''Step2_RecoJet_pt'', MeVToGeV ''Step2_RecoJet_pt'',
      DrawSame ''Step2_RecoJet_pt'', PrintPage]"

definition expp_ops3 :: "rop list" where
  "expp_ops3 =
     [Normalise ''Step3_RecoJet_njets_highmu'', Style ''Step3_RecoJet_njets_highmu'',
      Draw ''Step3_RecoJet_njets_highmu'',
      Normalise ''Step3_RecoJet_njets_midmu'', Style ''Step3_RecoJet_njets_midmu'',
      DrawSame ''Step3_RecoJet_njets_midmu'',
      Normalise ''Step3_RecoJet_njets_lowmu'', Style ''Step3_RecoJet_njets_lowmu'',
      DrawSame ''Step3_RecoJet_njets_lowmu'', PrintPage,
      Normalise ''Step3_TruthJet_njets_highmu'', Style ''Step3_TruthJet_njets_highmu'',
      Draw ''Step3_TruthJet_njets_highmu'',
      Normalise ''Step3_TruthJet_njets_midmu'', Style ''Step3_TruthJet_njets_midmu'',
      DrawSame ''Step3_TruthJet_njets_midmu'',
      Normalise ''Step3_TruthJet_njets_lowmu'', Style ''Step3_TruthJet_njets_lowmu'',
      DrawSame ''Step3_TruthJet_njets_lowmu'', PrintPage,
      Style ''Step3_RecoJets_njets_2D'', Draw ''Step3_RecoJets_njets_2D'', PrintPage,
      Style ''Step3_TruthJets_njets_2D'', Draw ''Step3_TruthJets_njets_2D'', PrintPage]"

definition expp_ops4 :: "rop list" where
  "expp_ops4 =
     [Normalise ''Step4_RecoJet_jvf_pt20'', Style ''Step4_RecoJet_jvf_pt20'',
      Draw ''Step4_RecoJet_jvf_pt20'',
      Normalise ''Step4_RecoJet_jvf_pt60'', Style ''Step4_RecoJet_jvf_pt60'',
      DrawSame ''Step4_RecoJet_jvf_pt60'',
      Normalise ''Step4_RecoJet_jvf_pt100'', Style ''Step4_RecoJet_jvf_pt100'',
      DrawSame ''Step4_RecoJet_jvf_pt100'', PrintPage,
      Style ''Step2_TruthJet_pt'', Draw ''Step2_TruthJet_pt'',
      DrawSame ''Step2_RecoJet_pt'',
      Style ''Step4_RecoJet_pt_jvf'', MeVToGeV ''Step4_RecoJet_pt_jvf'',
      DrawSame ''Step4_RecoJet_pt_jvf'', PrintPage,
      Normalise ''Step4_TrackJet_njets_highmu'', Style ''Step4_TrackJet_njets_highmu'',
      Draw ''Step4_TrackJet_njets_highmu'',
      Normalise ''Step4_TrackJet_njets_midmu'', Style ''Step4_TrackJet_njets_midmu'',
      DrawSame ''Step4_TrackJet_njets_midmu'',
      Normalise ''Step4_TrackJet_njets_lowmu'', Style ''Step4_TrackJet_njets_lowmu'',
      DrawSame ''Step4_TrackJet_njets_lowmu'', PrintPage,
      Style ''Step4_TrackJets_njets_2D'', Draw ''Step4_TrackJets_njets_2D'', PrintPage,
      Style ''Step2_TruthJet_pt'', Draw ''Step2_TruthJet_pt'',
      DrawSame ''Step4_RecoJet_pt_jvf'',
      Style ''Step4_TrackJet_pt'', MeVToGeV ''Step4_TrackJet_pt'',
      DrawSame ''Step4_TrackJet_pt'', PrintPage]"

definition expp_ops5 :: "rop list" where
  "expp_ops5 =
     [Normalise ''Step5_DRtruth_reco'', Style ''Step5_DRtruth_reco'',
      Draw ''Step5_DRtruth_reco'',
      Normalise ''Step5_DRtruth_reco_jvf'', Style ''Step5_DRtruth_reco_jvf'',
      DrawSame ''Step5_DRtruth_reco_jvf'',
      Normalise ''Step5_DRtruth_track'', Style ''Step5_DRtruth_track'',
      DrawSame ''Step5_DRtruth_track'', PrintPage,
      Normalise ''Step5_response_reco_pt20'', Style ''Step5_response_reco_pt20'',
      Fit ''Step5_response_reco_pt20'' (7 / 10) (16 / 10),
      Normalise ''Step5_response_reco_pt100'', Style ''Step5_response_reco_pt100'',
      Fit ''Step5_response_reco_pt100'' (8 / 10) (12 / 10),
      Normalise ''Step5_response_reco_pt1000'', Style ''Step5_response_reco_pt1000'',
      Fit ''Step5_response_reco_pt1000'' (8 / 10) (12 / 10),
      Style ''Step5_response_reco_pt20'', Draw ''Step5_response_reco_pt20'',
      DrawSame ''Step5_response_reco_pt100'', DrawSame ''Step5_response_reco_pt1000'',
      PrintPage,
      Normalise ''Step5_response_track_pt20'', Style ''Step5_response_track_pt20'',
      Fit ''Step5_response_track_pt20'' (3 / 10) (11 / 10),
      Normalise ''Step5_response_track_pt100'', Style ''Step5_response_track_pt100'',
      Fit ''Step5_response_track_pt100'' (3 / 10) 1,
      Normalise ''Step5_response_track_pt1000'', Style ''Step5_response_track_pt1000'',
      Fit ''Step5_response_track_pt1000'' (2 / 10) 1,
      Style ''Step5_response_track_pt20'', Draw ''Step5_response_track_pt20'',
      DrawSame ''Step5_response_track_pt100'', DrawSame ''Step5_response_track_pt1000'',
      PrintPage]"

definition expp_render :: "int \<Rightarrow> rstate \<Rightarrow> rstate \<times> fault option" where
  "expp_render stepNum st =
     render_step (stepNum = 0 \<or> stepNum \<ge> 5) expp_ops5
    (render_step (stepNum = 0 \<or> stepNum \<ge> 4) expp_ops4
    (render_step (stepNum = 0 \<or> stepNum \<ge> 3) expp_ops3
    (render_step (stepNum = 0 \<or> stepNum \<ge> 2) expp_ops2
    (render_step (stepNum = 0 \<or> stepNum \<ge> 1) expp_ops1 (st, None)))))"

definition exp_plots_main :: "(string \<Rightarrow> hfile option) \<Rightarrow> string list \<Rightarrow> plots_result" where
  "exp_plots_main = plots_main expp_fetch expp_render"


section \<open>jetRecoGroom_plots.cpp\<close>

definition groomp_gets1 :: "(hclass \<times> string) list" where
  "groomp_gets1 = [(TH1I, ''Step1_mu''), (TH1I, ''Step1_npv'')]"

definition groomp_tested1 :: "string list" where
  "groomp_tested1 = [''Step1_mu'', ''Step1_npv'']"

definition groomp_gets2 :: "(hclass \<times> string) list" where
  "groomp_gets2 =
     [(TH1F, ''Step2_UngroomPt_noweight''), (TH1F, ''Step2_UngroomPt''),
      (TH1F, ''Step2_TrimmedPt''), (TH1F, ''Step2_UngroomMass''),
      (TH1F, ''Step2_TrimmedMass'')]"

definition groomp_tested2 :: "string list" where
  "groomp_tested2 =
     [''Step2_UngroomPt_noweight'', ''Step2_UngroomPt'', ''Step2_TrimmedPt'',
      ''Step2_UngroomMass'', ''Step2_TrimmedMass'']"

definition groomp_gets3 :: "(hclass \<times> string) list" where
  "groomp_gets3 =
     [(TH1F, ''Step3_MyUngroomPt_noweight''), (TH1F, ''Step3_MyUngroomPt''),
      (TH1F, ''Step3_MyTrimmedPt_noweight''), (TH1F, ''Step3_MyTrimmedPt'')]"

definition groomp_tested3 :: "string list" where
  "groomp_tested3 =
     [''Step3_MyUngroomPt_noweight'', ''Step3_MyUngroomPt'',
      ''Step3_MyTrimmedPt_noweight'', ''Step3_MyTrimmedPt'']"

definition groomp_gets4 :: "(hclass \<times> string) list" where
  "groomp_gets4 =
     [(TH1F, ''Step4_MyPrunedPt''), (TH1F, ''Step4_MyPrunedMass''),
      (TH1F, ''Step4_MySDPt''), (TH1F, ''Step4_MySDMass''),
      (TH1F, ''Step4_MyRSDPt''), (TH1F, ''Step4_MyRSDMass''),
      (TH1F, ''Step4_MyBUSDPt''), (TH1F, ''Step4_MyBUSDMass''),
      (TH1F, ''Step4_MyBUSDTPt''), (TH1F, ''Step4_MyBUSDTMass'')]"

definition groomp_tested4 :: "string list" where
  "groomp_tested4 =
     [''Step4_MyPrunedPt'', ''Step4_MyPrunedMass'',
      ''Step4_MySDPt'', ''Step4_MySDMass'',
      ''Step4_MyRSDPt'', ''Step4_MyRSDMass'',
      ''Step4_MyBUSDPt'', ''Step4_MyBUSDMass'',
      ''Step4_MyBUSDTPt'', ''Step4_MyBUSDTMass'']"

definition groomp_gets5 :: "(hclass \<times> string) list" where
  "groomp_gets5 =
     [(TH1F, ''Step5_Ungroomed_D2''), (TH1F, ''Step5_Ungroomed_Tau32''),
      (TH1F, ''Step5_Trimmed_D2''), (TH1F, ''Step5_Trimmed_Tau32''),
      (TH1F, ''Step5_Pruned_D2''), (TH1F, ''Step5_Pruned_Tau32''),
      (TH1F, ''Step5_SD_D2''), (TH1F, ''Step5_SD_Tau32''),
      (TH1F, ''Step5_RSD_D2''), (TH1F, ''Step5_RSD_Tau32''),
      (TH1F, ''Step5_BUSD_D2''), (TH1F, ''Step5_BUSD_Tau32''),
      (TH1F, ''Step5_BUSDT_D2''), (TH1F, ''Step5_BUSDT_Tau32'')]"

definition groomp_tested5 :: "string list" where
  "groomp_tested5 =
     [''Step5_Ungroomed_D2'', ''Step5_Ungroomed_Tau32'',
      ''Step5_Trimmed_D2'', ''Step5_Trimmed_Tau32'',
      ''Step5_Pruned_D2'', ''Step5_Pruned_Tau32'',
      ''Step5_SD_D2'', ''Step5_SD_Tau32'',
      ''Step5_RSD_D2'', ''Step5_RSD_Tau32'',
      ''Step5_BUSD_D2'', ''Step5_BUSD_Tau32'',
      ''Step5_BUSDT_D2'', ''Step5_BUSDT_Tau32'']"

definition groomp_fetch :: "int \<Rightarrow> hfile \<Rightarrow> message list + hvars \<times> message list" where
  "groomp_fetch stepNum inFile =
     fetch_step (stepNum = 0 \<or> stepNum \<ge> 5) inFile groomp_gets5 groomp_tested5
    (fetch_step (stepNum = 0 \<or> stepNum \<ge> 4) inFile groomp_gets4 groomp_tested4
    (fetch_step (stepNum = 0 \<or> stepNum \<ge> 3) inFile groomp_gets3 groomp_tested3
    (fetch_step (stepNum = 0 \<or> stepNum \<ge> 2) inFile groomp_gets2 groomp_tested2
    (fetch_step (stepNum = 0 \<or> stepNum \<ge> 1) inFile groomp_gets1 groomp_tested1
       (Inr (\<lambda>n. None, []))))))"

definition groomp_ops1 :: "rop list" where
  "groomp_ops1 =
     [Style ''Step1_mu'', Draw ''Step1_mu'', PrintPage,
      Style ''Step1_npv'', Draw ''Step1_npv'', PrintPage]"

definition groomp_ops2 :: "rop list" where
  "groomp_ops2 =
     [Style ''Step2_UngroomPt_noweight'', MeVToGeV ''Step2_UngroomPt_noweight'',
      Style ''Step2_UngroomPt_noweight'', Draw ''Step2_UngroomPt_noweight'', PrintPage,
      Style ''Step2_UngroomPt'', MeVToGeV ''Step2_UngroomPt'',
      Style ''Step2_UngroomPt'', Draw ''Step2_UngroomPt'',
      Style ''Step2_TrimmedPt'', MeVToGeV ''Step2_TrimmedPt'',
      DrawSame ''Step2_TrimmedPt'', PrintPage,
      Style ''Step2_UngroomMass'', MeVToGeV ''Step2_UngroomMass'',
      Style ''Step2_UngroomMass'', Draw ''Step2_UngroomMass'',
      Style ''Step2_TrimmedMass'', MeVToGeV ''Step2_TrimmedMass'',
      DrawSame ''Step2_TrimmedMass'', PrintPage]"

definition groomp_ops3 :: "rop list" where
  "groomp_ops3 =
     [Style ''Step3_MyUngroomPt_noweight'', MeVToGeV ''Step3_MyUngroomPt_noweight'',
      Style ''Step3_MyUngroomPt_noweight'', Draw ''Step3_MyUngroomPt_noweight'',
      DrawSame ''Step2_UngroomPt_noweight'', PrintPage,
      Style ''Step3_MyUngroomPt'', MeVToGeV ''Step3_MyUngroomPt'',
      Style ''Step3_MyUngroomPt'', Draw ''Step3_MyUngroomPt'',
      DrawSame ''Step2_UngroomPt'', PrintPage,
      Style ''Step3_MyTrimmedPt'', MeVToGeV ''Step3_MyTrimmedPt'',
      Style ''Step3_MyTrimmedPt'', Draw ''Step3_MyTrimmedPt'',
      Style ''Step2_TrimmedPt'', DrawSame ''Step2_TrimmedPt'', PrintPage]"

definition groomp_ops4 :: "rop list" where
  "groomp_ops4 =
     [Style ''Step3_MyUngroomPt'', Draw ''Step3_MyUngroomPt'',
      Style ''Step3_MyTrimmedPt'', DrawSame ''Step3_MyTrimmedPt'',
      Style ''Step4_MyPrunedPt'', MeVToGeV ''Step4_MyPrunedPt'',
      Style ''Step4_MyPrunedPt'', DrawSame ''Step4_MyPrunedPt'',
      Style ''Step4_MySDPt'', MeVToGeV ''Step4_MySDPt'',
      Style ''Step4_MySDPt'', DrawSame ''Step4_MySDPt'',
      Style ''Step4_MyRSDPt'', MeVToGeV ''Step4_MyRSDPt'',
      Style ''Step4_MyRSDPt'', DrawSame ''Step4_MyRSDPt'',
      Style ''Step4_MyBUSDPt'', MeVToGeV ''Step4_MyBUSDPt'',
      Style ''Step4_MyBUSDPt'', DrawSame ''Step4_MyBUSDPt'',
      Style ''Step4_MyBUSDTPt'', MeVToGeV ''Step4_MyBUSDTPt'',
      Style ''Step4_MyBUSDTPt'', DrawSame ''Step4_MyBUSDTPt'', PrintPage,
      Normalise ''Step2_UngroomMass'', Style ''Step2_UngroomMass'',
      Draw ''Step2_UngroomMass'',
      Normalise ''Step2_TrimmedMass'', Style ''Step2_TrimmedMass'',
      DrawSame ''Step2_TrimmedMass'',
      Normalise ''Step4_MyPrunedMass'', Style ''Step4_MyPrunedMass'',
      MeVToGeV ''Step4_MyPrunedMass'', Style ''Step4_MyPrunedMass'',
      DrawSame ''Step4_MyPrunedMass'',
      Normalise ''Step4_MySDMass'', Style ''Step4_MySDMass'',
      MeVToGeV ''Step4_MySDMass'', Style ''Step4_MySDMass'',
      DrawSame ''Step4_MySDMass'',
      Normalise ''Step4_MyRSDMass'', Style ''Step4_MyRSDMass'',
      MeVToGeV ''Step4_MyRSDMass'', Style ''Step4_MyRSDMass'',
      DrawSame ''Step4_MyRSDMass'',
      Normalise ''Step4_MyBUSDMass'', Style ''Step4_MyBUSDMass'',
      MeVToGeV ''Step4_MyBUSDMass'', Style ''Step4_MyBUSDMass'',
      DrawSame ''Step4_MyBUSDMass'',
      Normalise ''Step4_MyBUSDTMass'', Style ''Step4_MyBUSDTMass'',
      MeVToGeV ''Step4_MyBUSDTMass'', Style ''Step4_MyBUSDTMass'',
      DrawSame ''Step4_MyBUSDTMass'', PrintPage]"

definition groomp_ops5 :: "rop list" where
  "groomp_ops5 =
     [Normalise ''Step5_Ungroomed_D2'', Style ''Step5_Ungroomed_D2'',
      Draw ''Step5_Ungroomed_D2'',
      Normalise ''Step5_Trimmed_D2'', Style ''Step5_Trimmed_D2'',
      DrawSame ''Step5_Trimmed_D2'',
      Normalise ''Step5_Pruned_D2'', Style ''Step5_Pruned_D2'',
      DrawSame ''Step5_Pruned_D2'',
      Normalise ''Step5_SD_D2'', Style ''Step5_SD_D2'', DrawSame ''Step5_SD_D2'',
      Normalise ''Step5_RSD_D2'', Style ''Step5_RSD_D2'', DrawSame ''Step5_RSD_D2'',
      Normalise ''Step5_BUSD_D2'', Style ''Step5_BUSD_D2'', DrawSame ''Step5_BUSD_D2'',
      Normalise ''Step5_BUSDT_D2'', Style ''Step5_BUSDT_D2'',
      DrawSame ''Step5_BUSDT_D2'', PrintPage,
      Normalise ''Step5_Ungroomed_Tau32'', Style ''Step5_Ungroomed_Tau32'',
      Draw ''Step5_Ungroomed_Tau32'',
      Normalise ''Step5_Trimmed_Tau32'', Style ''Step5_Trimmed_Tau32'',
      DrawSame ''Step5_Trimmed_Tau32'',
      Normalise ''Step5_Pruned_Tau32'', Style ''Step5_Pruned_Tau32'',
      DrawSame ''Step5_Pruned_Tau32'',
      Normalise ''Step5_SD_Tau32'', Style ''Step5_SD_Tau32'',
      DrawSame ''Step5_SD_Tau32'',
      Normalise ''Step5_RSD_Tau32'', Style ''Step5_RSD_Tau32'',
      DrawSame ''Step5_RSD_Tau32'',
      Normalise ''Step5_BUSD_Tau32'', Style ''Step5_BUSD_Tau32'',
      DrawSame ''Step5_BUSD_Tau32'',
      Normalise ''Step5_BUSDT_Tau32'', Style ''Step5_BUSDT_Tau32'',
      DrawSame ''Step5_BUSDT_Tau32'', PrintPage]"

definition groomp_render :: "int \<Rightarrow> rstate \<Rightarrow> rstate \<times> fault option" where
  "groomp_render stepNum st =
     render_step (stepNum = 0 \<or> stepNum \<ge> 5) groomp_ops5
    (render_step (stepNum = 0 \<or> stepNum \<ge> 4) groomp_ops4
    (render_step (stepNum = 0 \<or> stepNum \<ge> 3) groomp_ops3
    (render_step (stepNum = 0 \<or> stepNum \<ge> 2) groomp_ops2
    (render_step (stepNum = 0 \<or> stepNum \<ge> 1) groomp_ops1 (st, None)))))"

definition groom_plots_main :: "(string \<Rightarrow> hfile option) \<Rightarrow> string list \<Rightarrow> plots_result" where
  "groom_plots_main = plots_main groomp_fetch groomp_render"


section \<open>Auxiliary definitions for the statements\<close>

fun exp_step_branches :: "nat \<Rightarrow> string list" where
  "exp_step_branches k =
     (if k = 1 then exp_branches1 else if k = 2 then exp_branches2
      else if k = 4 then exp_branches4 else [])"

fun exp_step_hists :: "nat \<Rightarrow> string list" where
  "exp_step_hists k =
     (if k = 1 then exp_hists1 else if k = 2 then exp_hists2 else if k = 3 then exp_hists3
      else if k = 4 then exp_hists4 else if k = 5 then exp_hists5 else [])"

fun in_loop :: "action \<Rightarrow> bool" where
  "in_loop (Printf m) = True"
| "in_loop (GetEntry i) = True"
| "in_loop (EnterStep k i) = True"
| "in_loop (Fill h x) = True"
| "in_loop (FillW h x w) = True"
| "in_loop (Fill2 h x y) = True"
| "in_loop _ = False"

definition exp_columns :: "string list" where
  "exp_columns = exp_branches1 @ exp_branches2 @ exp_branches4"

definition scenario_event :: exp_event where
  "scenario_event =
     \<lparr> col_mu_average = 20, col_NPV = 10, col_EventWeight = 2,
       RecoJets_R4_pt = [45000], RecoJets_R4_eta = [5 / 100], RecoJets_R4_phi = [5 / 100],
       RecoJets_R4_m = [4000],
       TruthJets_R4_pt = [50000], TruthJets_R4_eta = [0], TruthJets_R4_phi = [0],
       TruthJets_R4_m = [5000],
       RecoJets_R4_jvf = [1],
       TrackJets_R4_pt = [], TrackJets_R4_eta = [], TrackJets_R4_phi = [],
       TrackJets_R4_m = [] \<rparr>"

definition scenario_tree :: "exp_event tree" where
  "scenario_tree = \<lparr> branches = exp_columns, entries = [scenario_event] \<rparr>"

definition scenario_file :: "string \<Rightarrow> exp_event tree option" where
  "scenario_file tn = (if tn = ''tree'' then Some scenario_tree else None)"

definition scenario_world :: "exp_event world" where
  "scenario_world =
     \<lparr> files = (\<lambda>fn. if fn = ''in.root'' then Some scenario_file else None),
       creatable = (\<lambda>fn. True) \<rparr>"

definition scenario_argv :: "string \<Rightarrow> string list" where
  "scenario_argv step = [''jetRecoExp'', ''out.root'', step, ''tree'', ''in.root'']"

fun fill_name :: "action \<Rightarrow> string list" where
  "fill_name (Fill n x) = [n]"
| "fill_name (FillW n x w) = [n]"
| "fill_name (Fill2 n x y) = [n]"
| "fill_name _ = []"

definition fill_names :: "action list \<Rightarrow> string list" where
  "fill_names acts = concat (map fill_name acts)"

definition rebuilt_jets :: "'j fastjet \<Rightarrow> groom_vars \<Rightarrow> 'j list option" where
  "rebuilt_jets fj v =
     (case cluster_pt v of
        None \<Rightarrow> None
      | Some xs \<Rightarrow>
          (case convert_clusters v [0..<length xs] of
             Inl f \<Rightarrow> None
           | Inr clusters \<Rightarrow> Some (akt10_jets fj clusters)))"

definition toy_fastjet :: "real fastjet" where
  "toy_fastjet =
     \<lparr> akt10_jets = (\<lambda>clusters. rev (sort (map fst clusters))),
       trimmer = (\<lambda>j. j),
       jet_pt = (\<lambda>j. j) \<rparr>"

definition groom_columns :: "string list" where
  "groom_columns = groom_branches1 @ groom_branches2 @ groom_branches3"

definition groom_demo_event :: groom_event where
  "groom_demo_event =
     \<lparr> col_mu_average = 20, col_NPV = 10, col_EventWeight = 2,
       RecoJets_R10_pt = [500000], RecoJets_R10_m = [80000],
       RecoJets_R10_Trimmed_pt = [400000], RecoJets_R10_Trimmed_m = [70000],
       Clusters_pt = [300000, 200000], Clusters_eta = [0, 1 / 10],
       Clusters_phi = [0, 1 / 10], Clusters_m = [0, 0] \<rparr>"

definition groom_demo_tree :: "groom_event tree" where
  "groom_demo_tree = \<lparr> branches = groom_columns, entries = [groom_demo_event] \<rparr>"

definition groom_bad_event :: groom_event where
  "groom_bad_event =
     \<lparr> col_mu_average = 20, col_NPV = 10, col_EventWeight = 2,
       RecoJets_R10_pt = [500000], RecoJets_R10_m = [80000],
       RecoJets_R10_Trimmed_pt = [], RecoJets_R10_Trimmed_m = [],
       Clusters_pt = [300000, 200000], Clusters_eta = [0, 1 / 10],
       Clusters_phi = [0, 1 / 10], Clusters_m = [0, 0] \<rparr>"

definition groom_bad_world :: "groom_event world" where
  "groom_bad_world =
     \<lparr> files = (\<lambda>fn. if fn = ''in.root'' then
          Some (\<lambda>tn. if tn = ''tree'' then
            Some \<lparr> branches = groom_columns, entries = [groom_bad_event] \<rparr> else None)
          else None),
       creatable = (\<lambda>fn. True) \<rparr>"

definition groom_bad_argv :: "string list" where
  "groom_bad_argv = [''jetRecoGroom'', ''out.root'', ''2'', ''tree'', ''in.root'']"

fun erase :: "action \<Rightarrow> action" where
  "erase (FillW h x w) = FillW h x 0"
| "erase a = a"

fun weighted_name :: "action \<Rightarrow> string list" where
  "weighted_name (FillW n x w) = [n]"
| "weighted_name _ = []"

definition weighted_names :: "action list \<Rightarrow> string list" where
  "weighted_names acts = concat (map weighted_name acts)"



definition groom_demo_world :: "real \<Rightarrow> groom_event world" where
  "groom_demo_world weight =
     \<lparr> files = (\<lambda>fn. if fn = ''in.root'' then
          Some (\<lambda>tn. if tn = ''tree'' then
            Some (groom_demo_tree \<lparr> entries := [groom_demo_event \<lparr> col_EventWeight := weight \<rparr>] \<rparr>)
            else None)
          else None),
       creatable = (\<lambda>fn. True) \<rparr>"

fun groom_step_branches :: "nat \<Rightarrow> string list" where
  "groom_step_branches k =
     (if k = 1 then groom_branches1 else if k = 2 then groom_branches2
      else if k = 3 then groom_branches3 else [])"

fun groom_step_hists :: "nat \<Rightarrow> string list" where
  "groom_step_hists k =
     (if k = 1 then groom_hists1 else if k = 2 then groom_hists2
      else if k = 3 then groom_hists3 else if k = 4 then groom_hists4
      else if k = 5 then groom_hists5 else [])"

definition exp_fills1 :: "exp_event \<Rightarrow> action list" where
  "exp_fills1 e =
     [Fill ''Step1_mu'' (col_mu_average e),
      Fill ''Step1_npv'' (real (col_NPV e)),
      Fill2 ''Step1_mu_npv'' (col_mu_average e) (real (col_NPV e))]"

definition exp_fills2 :: "exp_event \<Rightarrow> action list" where
  "exp_fills2 e =
     (case RecoJets_R4_pt e of
        [] \<Rightarrow> []
      | pt # _ \<Rightarrow> [Fill ''Step2_RecoJet_pt_noweight'' pt,
                   FillW ''Step2_RecoJet_pt'' pt (col_EventWeight e)]) @
     (case TruthJets_R4_pt e of
        [] \<Rightarrow> []
      | pt # _ \<Rightarrow> [Fill ''Step2_TruthJet_pt_noweight'' pt,
                   FillW ''Step2_TruthJet_pt'' pt (col_EventWeight e)])"

definition exp_step_fills :: "nat \<Rightarrow> exp_event \<Rightarrow> action list" where
  "exp_step_fills k e = (if k = 1 then exp_fills1 e else if k = 2 then exp_fills2 e else [])"

definition fills_any :: "string list \<Rightarrow> action \<Rightarrow> bool" where
  "fills_any hs a = list_ex (\<lambda>h. fills h a) hs"


lemma snd_skip [simp]: "snd skip = None" and fst_skip [simp]: "fst skip = []"
  by (simp_all add: skip_def)

lemma snd_emit [simp]: "snd (emit a) = None" and fst_emit [simp]: "fst (emit a) = a"
  by (simp_all add: emit_def)

lemma snd_abort [simp]: "snd (abort f) = Some f" and fst_abort [simp]: "fst (abort f) = []"
  by (simp_all add: abort_def)

lemma snd_andThen: "snd (andThen p q) = (case snd p of None \<Rightarrow> snd q | Some f \<Rightarrow> Some f)"
  by (simp add: andThen_def split: option.splits)

lemma fst_andThen: "fst (andThen p q) = (case snd p of None \<Rightarrow> fst p @ fst q | Some f \<Rightarrow> fst p)"
  by (simp add: andThen_def split: option.splits)

lemma andThen_ok [simp]: "snd p = None \<Longrightarrow> snd (andThen p q) = snd q"
  "snd p = None \<Longrightarrow> fst (andThen p q) = fst p @ fst q"
  by (simp_all add: andThen_def)

lemma exp_step2_ok: "RecoJet_pt v \<noteq> None \<Longrightarrow> TruthJet_pt v \<noteq> None \<Longrightarrow> snd (exp_step2 v) = None"
  by (auto simp: exp_step2_def vsize_def at0_def snd_andThen split: option.splits list.splits)

lemma exp_step2_in_loop: "list_all in_loop (fst (exp_step2 v))"
  by (auto simp: exp_step2_def vsize_def at0_def fst_andThen split: option.splits list.splits)

lemma exp_step2_no_enter: "EnterStep k j \<notin> set (fst (exp_step2 v))"
  by (auto simp: exp_step2_def vsize_def at0_def fst_andThen split: option.splits list.splits)

lemma exp_process_ok:
  "(s = 0 \<or> 2 \<le> s \<Longrightarrow> RecoJet_pt v \<noteq> None \<and> TruthJet_pt v \<noteq> None) \<Longrightarrow> snd (exp_process s i v) = None"
  by (auto simp: exp_process_def exp_step1_def exp_step2_ok)

lemma exp_process_in_loop: "list_all in_loop (fst (exp_process s i v))"
  using exp_step2_in_loop [of v]
  by (auto simp: exp_process_def exp_step1_def fst_andThen snd_andThen split: option.splits)

lemma exp_process_enter:
  "snd (exp_step2 v) = None \<Longrightarrow>
   (EnterStep k j \<in> set (fst (exp_process s i v))) =
   (j = i \<and> 1 \<le> k \<and> k \<le> 5 \<and> (s = 0 \<or> int k \<le> s))"
  using exp_step2_no_enter [of _ _ v]
  apply (simp add: exp_process_def exp_step1_def)
  apply (auto)
  done

lemma exp_body_ok:
  assumes "s = 0 \<or> 2 \<le> s \<Longrightarrow> ''RecoJets_R4_pt'' \<in> set (branches t) \<and> ''TruthJets_R4_pt'' \<in> set (branches t)"
  shows "snd (exp_body s t i e) = None"
  using assms by (auto simp: exp_body_def exp_GetEntry_def intro!: exp_process_ok)

lemma exp_body_in_loop: "list_all in_loop (fst (exp_body s t i e))"
  using exp_process_in_loop [of s i "exp_GetEntry s t e"]
  by (auto simp: exp_body_def progress_def fst_andThen split: option.splits)

lemma exp_body_enter:
  assumes "s = 0 \<or> 2 \<le> s \<Longrightarrow> ''RecoJets_R4_pt'' \<in> set (branches t) \<and> ''TruthJets_R4_pt'' \<in> set (branches t)"
  shows "(EnterStep k j \<in> set (fst (exp_body s t i e))) =
   (j = i \<and> 1 \<le> k \<and> k \<le> 5 \<and> (s = 0 \<or> int k \<le> s))"
proof -
  let ?v = "exp_GetEntry s t e"
  have ok: "snd (exp_process s i ?v) = None"
    using assms by (auto simp: exp_GetEntry_def intro!: exp_process_ok)
  show ?thesis
  proof (cases "s = 0 \<or> 2 \<le> s")
    case True
    then have "snd (exp_step2 ?v) = None"
      using assms by (auto simp: exp_GetEntry_def intro!: exp_step2_ok)
    then show ?thesis
      by (simp add: exp_body_def progress_def exp_process_enter)
  next
    case False
    then show ?thesis
      by (auto simp: exp_body_def progress_def exp_process_def exp_step1_def)
  qed
qed

lemma event_loop_ok:
  "(\<And>i e. snd (body i e) = None) \<Longrightarrow> snd (event_loop body i es) = None"
  by (induction es arbitrary: i) (simp_all)

lemma event_loop_all:
  "(\<And>i e. list_all P (fst (body i e))) \<Longrightarrow> list_all P (fst (event_loop body i es))"
  by (induction es arbitrary: i) (auto simp: fst_andThen split: option.splits)

lemma event_loop_mem:
  assumes "\<And>i e. snd (body i e) = None"
  shows "(a \<in> set (fst (event_loop body i es))) = (\<exists>n < length es. a \<in> set (fst (body (i + n) (es ! n))))"
proof (induction es arbitrary: i)
  case Nil
  then show ?case by simp
next
  case (Cons e es)
  have "(\<exists>n < length (e # es). a \<in> set (fst (body (i + n) ((e # es) ! n)))) =
        (a \<in> set (fst (body i e)) \<or> (\<exists>n < length es. a \<in> set (fst (body (Suc i + n) (es ! n)))))"
    by (auto simp: less_Suc_eq_0_disj)
  then show ?case using Cons assms by simp
qed

lemma exp_run_trace:
  assumes "files w fn = Some f" "f tn = Some t" "creatable w out" "0 \<le> s" "s \<le> 5"
    and "s = 0 \<or> 2 \<le> s \<Longrightarrow> ''RecoJets_R4_pt'' \<in> set (branches t) \<and> ''TruthJets_R4_pt'' \<in> set (branches t)"
  shows "exp_run w out s tn fn =
    (exp_wiring s @ exp_prepare out @ fst (event_loop (exp_body s t) 0 (entries t)) @ exp_writes s @ [CloseOutput], Exit 0)"
proof -
  have "snd (event_loop (exp_body s t) 0 (entries t)) = None"
    using assms(6) by (intro event_loop_ok exp_body_ok) 
  then show ?thesis using assms(1-5) by (simp add: exp_run_def save_def)
qed

lemma exp_loop_in_loop: "list_all in_loop (fst (event_loop (exp_body s t) i es))"
  by (intro event_loop_all exp_body_in_loop)

lemma step_cases:
  assumes "k \<in> {1..5::nat}"
  obtains "k = 1" | "k = 2" | "k = 3" | "k = 4" | "k = 5"
  using assms by (auto simp: numeral_eq_Suc le_Suc_eq)

lemma exp_wiring_status:
  assumes "k \<in> {1..5}" "b \<in> set (exp_step_branches k)" "0 \<le> s" "s \<le> 5"
  shows "(SetBranchStatus b True \<in> set (exp_wiring s)) = (s = 0 \<or> int k \<le> s)"
  using assms(1)
proof (cases k rule: step_cases)
  case 1 then show ?thesis using assms
    by (auto simp: exp_wiring_def wire_def exp_branches1_def exp_branches2_def exp_branches4_def)
next
  case 2 then show ?thesis using assms
    by (auto simp: exp_wiring_def wire_def exp_branches1_def exp_branches2_def exp_branches4_def)
next
  case 3 then show ?thesis using assms by simp
next
  case 4 then show ?thesis using assms
    by (auto simp: exp_wiring_def wire_def exp_branches1_def exp_branches2_def exp_branches4_def)
next
  case 5 then show ?thesis using assms by simp
qed

lemma exp_wiring_address:
  assumes "k \<in> {1..5}" "b \<in> set (exp_step_branches k)" "0 \<le> s" "s \<le> 5"
  shows "(SetBranchAddress b \<in> set (exp_wiring s)) = (s = 0 \<or> int k \<le> s)"
  using assms(1)
proof (cases k rule: step_cases)
  case 1 then show ?thesis using assms
    by (auto simp: exp_wiring_def wire_def exp_branches1_def exp_branches2_def exp_branches4_def)
next
  case 2 then show ?thesis using assms
    by (auto simp: exp_wiring_def wire_def exp_branches1_def exp_branches2_def exp_branches4_def)
next
  case 3 then show ?thesis using assms by simp
next
  case 4 then show ?thesis using assms
    by (auto simp: exp_wiring_def wire_def exp_branches1_def exp_branches2_def exp_branches4_def)
next
  case 5 then show ?thesis using assms by simp
qed

lemma exp_hists_step:
  "h \<in> set exp_hists1 \<Longrightarrow> h ! 4 = CHR ''1''"
  "h \<in> set exp_hists2 \<Longrightarrow> h ! 4 = CHR ''2''"
  "h \<in> set exp_hists3 \<Longrightarrow> h ! 4 = CHR ''3''"
  "h \<in> set exp_hists4 \<Longrightarrow> h ! 4 = CHR ''4''"
  "h \<in> set exp_hists5 \<Longrightarrow> h ! 4 = CHR ''5''"
  by (auto simp: exp_hists1_def exp_hists2_def exp_hists3_def exp_hists4_def exp_hists5_def)

lemma exp_writes_mem:
  "(Write h \<in> set (exp_writes s)) =
     ((s = 0 \<or> 1 \<le> s) \<and> h \<in> set exp_hists1 \<or> (s = 0 \<or> 2 \<le> s) \<and> h \<in> set exp_hists2 \<or>
      (s = 0 \<or> 3 \<le> s) \<and> h \<in> set exp_hists3 \<or> (s = 0 \<or> 4 \<le> s) \<and> h \<in> set exp_hists4 \<or>
      (s = 0 \<or> 5 \<le> s) \<and> h \<in> set exp_hists5)"
  by (auto simp: exp_writes_def)

lemma exp_writes_step:
  assumes "k \<in> {1..5}" "h \<in> set (exp_step_hists k)" "0 \<le> s" "s \<le> 5"
  shows "(Write h \<in> set (exp_writes s)) = (s = 0 \<or> int k \<le> s)"
  using assms(1)
proof (cases k rule: step_cases)
  case 1 then show ?thesis using assms exp_hists_step [of h] by (auto simp: exp_writes_mem)
next
  case 2 then show ?thesis using assms exp_hists_step [of h] by (auto simp: exp_writes_mem)
next
  case 3 then show ?thesis using assms exp_hists_step [of h] by (auto simp: exp_writes_mem)
next
  case 4 then show ?thesis using assms exp_hists_step [of h] by (auto simp: exp_writes_mem)
next
  case 5 then show ?thesis using assms exp_hists_step [of h] by (auto simp: exp_writes_mem)
qed

lemma atol_digit [simp]:
  "int_of_long (atol ''0'') = 0" "int_of_long (atol ''1'') = 1" "int_of_long (atol ''2'') = 2"
  "int_of_long (atol ''3'') = 3" "int_of_long (atol ''4'') = 4" "int_of_long (atol ''5'') = 5"
  "int_of_long (atol ''7'') = 7"
  by (simp_all add: atol_def isspace_def isdigit_def LONG_MAX_def int_of_long_def)



lemma fill_names_simps [simp]:
  "fill_names [] = []"
  "fill_names (a # acts) = fill_name a @ fill_names acts"
  "fill_names (xs @ ys) = fill_names xs @ fill_names ys"
  by (simp_all add: fill_names_def)



lemma no_fill_iff: "(filter (fills h) acts = []) = (h \<notin> set (fill_names acts))"
proof (induction acts)
  case Nil then show ?case by simp
next
  case (Cons a acts) then show ?case by (cases a) auto
qed


lemma exp_process_names:
  "fill_names (fst (exp_process s i v)) =
     (if s = 0 \<or> 1 \<le> s then [''Step1_mu'', ''Step1_npv'', ''Step1_mu_npv''] else []) @
     (if s = 0 \<or> 2 \<le> s then fill_names (fst (exp_step2 v)) else [])"
  by (auto simp: exp_process_def exp_step1_def fst_andThen snd_andThen split: option.splits)


lemma exp_body_names:
  "fill_names (fst (exp_body s t i e)) = fill_names (fst (exp_process s i (exp_GetEntry s t e)))"
  by (simp add: exp_body_def progress_def)

lemma groom_step2_names:
  "fill_names (fst (groom_step2 v)) =
     (case jet_R10_ungroom_pt v of
        Some (u_pt # xs) \<Rightarrow>
          [''Step2_UngroomPt_noweight'', ''Step2_UngroomPt''] @
          (case jet_R10_trimmed_pt v of
             Some (t_pt # ys) \<Rightarrow>
               ''Step2_TrimmedPt'' #
               (if u_pt > 400000 then
                  (case jet_R10_ungroom_m v of
                     Some (u_m # zs) \<Rightarrow>
                       ''Step2_UngroomMass'' #
                       (if t_pt > 400000 then
                          (case jet_R10_trimmed_m v of Some (t_m # ws) \<Rightarrow> [''Step2_TrimmedMass''] | _ \<Rightarrow> [])
                        else [])
                   | _ \<Rightarrow> [])
                else
                  (if t_pt > 400000 then
                     (case jet_R10_trimmed_m v of Some (t_m # ws) \<Rightarrow> [''Step2_TrimmedMass''] | _ \<Rightarrow> [])
                   else []))
           | _ \<Rightarrow> [])
      | _ \<Rightarrow> [])"
  by (auto simp: groom_step2_def vsize_def at0_def fst_andThen snd_andThen split: option.splits list.splits)

lemma groom_step3_names:
  "fill_names (fst (groom_step3 fj s i v)) =
     (case rebuilt_jets fj v of
        Some (j # js) \<Rightarrow>
          [''Step3_MyUngroomPt_noweight'', ''Step3_MyUngroomPt'',
           ''Step3_MyTrimmedPt_noweight'', ''Step3_MyTrimmedPt'']
      | _ \<Rightarrow> [])"
  by (auto simp: groom_step3_def rebuilt_jets_def vsize_def fst_andThen snd_andThen
      split: option.splits list.splits sum.splits)

lemma groom_process_names:
  "fill_names (fst (groom_process fj s i v)) =
     (if s = 0 \<or> 1 \<le> s then [''Step1_mu'', ''Step1_npv''] else []) @
     (if s = 0 \<or> 2 \<le> s then fill_names (fst (groom_step2 v)) else []) @
     (if (s = 0 \<or> 3 \<le> s) \<and> snd (groom_step2 v) = None
      then fill_names (fst (groom_step3 fj s i v)) else [])"
  by (auto simp: groom_process_def groom_step1_def fst_andThen snd_andThen split: option.splits)

lemma groom_hists_step:
  "h \<in> set groom_hists1 \<Longrightarrow> h ! 4 = CHR ''1''"
  "h \<in> set groom_hists2 \<Longrightarrow> h ! 4 = CHR ''2''"
  "h \<in> set groom_hists3 \<Longrightarrow> h ! 4 = CHR ''3''"
  "h \<in> set groom_hists4 \<Longrightarrow> h ! 4 = CHR ''4''"
  "h \<in> set groom_hists5 \<Longrightarrow> h ! 4 = CHR ''5''"
  by (auto simp: groom_hists1_def groom_hists2_def groom_hists3_def groom_hists4_def groom_hists5_def)

lemma groom_step2_sub: "set (fill_names (fst (groom_step2 v))) \<subseteq> set groom_hists2"
  by (auto simp: groom_step2_def vsize_def at0_def fst_andThen snd_andThen groom_hists2_def
      split: option.splits list.splits)


lemma groom_step3_sub: "set (fill_names (fst (groom_step3 fj s i v))) \<subseteq> set groom_hists3"
  by (auto simp: groom_step3_names groom_hists3_def split: option.splits list.splits)




lemma groom_body_names:
  "fill_names (fst (groom_body fj s t i e)) = fill_names (fst (groom_process fj s i (groom_GetEntry s t e)))"
  by (simp add: groom_body_def progress_def)





















text \<open>Step 2 of the large-radius program when the four leading values exist.\<close>

lemma groom_step2_leading:
  assumes "jet_R10_ungroom_pt v = Some (u_pt # us)" "jet_R10_trimmed_pt v = Some (t_pt # ts)"
    and "jet_R10_ungroom_m v = Some (u_m # ums)" "jet_R10_trimmed_m v = Some (t_m # tms)"
  shows "groom_step2 v =
    ([Fill ''Step2_UngroomPt_noweight'' u_pt, FillW ''Step2_UngroomPt'' u_pt (EventWeight v),
      FillW ''Step2_TrimmedPt'' t_pt (EventWeight v)] @
     (if u_pt > 400000 then [FillW ''Step2_UngroomMass'' u_m (EventWeight v)] else []) @
     (if t_pt > 400000 then [FillW ''Step2_TrimmedMass'' t_m (EventWeight v)] else []), None)"
  using assms by (simp add: groom_step2_def vsize_def at0_def andThen_def emit_def skip_def)

lemma groom_mass_gate:
  assumes "jet_R10_ungroom_pt v = Some (u_pt # us)" "jet_R10_trimmed_pt v = Some (t_pt # ts)"
    and "jet_R10_ungroom_m v = Some (u_m # ums)" "jet_R10_trimmed_m v = Some (t_m # tms)"
  shows "(filter (fills ''Step2_UngroomMass'') (fst (groom_step2 v)) \<noteq> []) = (u_pt > 400000)"
    and "(filter (fills ''Step2_TrimmedMass'') (fst (groom_step2 v)) \<noteq> []) = (t_pt > 400000)"
  using assms by (simp_all add: groom_step2_leading)

text \<open>
  C6. The run of the large-radius program at step 2 on one event whose leading
  ungroomed jet has pT 500e3 (above the 400e3 floor) and mass 80e3, and whose trimmed
  collection is empty: \<^verbatim>\<open>jet_R10_trimmed_pt->at(0)\<close> throws before the mass fills are
  reached, so the ungroomed mass histogram gets no fill and nothing is written.
\<close>

theorem groom_mass_gate_empty_trimmed:
  "RecoJets_R10_pt groom_bad_event = [500000] \<and> (400000 :: real) < 500000 \<and>
   snd (groom_main toy_fastjet groom_bad_world groom_bad_argv) = Fault OutOfRange \<and>
   filter (fills ''Step2_UngroomMass'')
     (fst (groom_main toy_fastjet groom_bad_world groom_bad_argv)) = [] \<and>
   Write ''Step2_UngroomMass'' \<notin> set (fst (groom_main toy_fastjet groom_bad_world groom_bad_argv))"
  by (auto simp: groom_bad_argv_def groom_main_def groom_run_def groom_bad_world_def
      groom_bad_event_def groom_columns_def
      groom_branches1_def groom_branches2_def groom_branches3_def save_def groom_body_def
      progress_def groom_process_def groom_step1_def groom_step2_def groom_GetEntry_def
      vsize_def at0_def andThen_def emit_def skip_def abort_def groom_wiring_def wire_def
      groom_prepare_def)

lemma fills_erase [simp]: "fills h (erase a) = fills h a"
  by (cases a) simp_all


lemma weighted_names_simps [simp]:
  "weighted_names [] = []"
  "weighted_names (a # acts) = weighted_name a @ weighted_names acts"
  "weighted_names (xs @ ys) = weighted_names xs @ weighted_names ys"
  by (simp_all add: weighted_names_def)












lemma save_fst:
  "fst (save ok wr c) = fst c @ (if snd c = None \<and> ok then wr @ [CloseOutput] else [])"
  by (simp add: save_def split: option.splits)

lemma save_snd:
  "snd (save ok wr c) =
     (case snd c of Some f \<Rightarrow> Fault f | None \<Rightarrow> if ok then Exit 0 else Fault NullDeref)"
  by (simp add: save_def split: option.splits)

lemma exp_run_open:
  "files w fn = Some f \<Longrightarrow> f tn = Some t \<Longrightarrow> 0 \<le> s \<Longrightarrow> s \<le> 5 \<Longrightarrow>
   exp_run w out s tn fn =
     save (creatable w out) (exp_writes s)
       (andThen (emit (exp_wiring s @ exp_prepare out))
          (event_loop (exp_body s t) 0 (entries t)))"
  by (simp add: exp_run_def)

lemma groom_run_open:
  "files w fn = Some f \<Longrightarrow> f tn = Some t \<Longrightarrow> 0 \<le> s \<Longrightarrow> s \<le> 5 \<Longrightarrow>
   groom_run fj w out s tn fn =
     save (creatable w out) (groom_writes s)
       (andThen (emit (groom_wiring s @ groom_prepare out))
          (event_loop (groom_body fj s t) 0 (entries t)))"
  by (simp add: groom_run_def)

lemma erase_static [simp]:
  "map erase (wire bs) = wire bs"
  "map erase (map Write hs) = map Write hs"
  "map erase (map Construct hs) = map Construct hs"
  by (simp_all add: wire_def)

lemma erase_frame [simp]:
  "map erase (exp_wiring s) = exp_wiring s" "map erase (exp_prepare out) = exp_prepare out"
  "map erase (exp_writes s) = exp_writes s"
  "map erase (groom_wiring s) = groom_wiring s" "map erase (groom_prepare out) = groom_prepare out"
  "map erase (groom_writes s) = groom_writes s"
  by (simp_all add: exp_wiring_def exp_prepare_def exp_writes_def
      groom_wiring_def groom_prepare_def groom_writes_def)

lemma weighted_static [simp]:
  "weighted_names (wire bs) = []"
  "weighted_names (map Write hs) = []"
  "weighted_names (map Construct hs) = []"
proof -
  have "weighted_names (map (\<lambda>b. SetBranchStatus b True) bs) = []"
    by (induction bs) simp_all
  moreover have "weighted_names (map SetBranchAddress bs) = []"
    by (induction bs) simp_all
  ultimately show "weighted_names (wire bs) = []" by (simp add: wire_def)
  show "weighted_names (map Write hs) = []" by (induction hs) simp_all
  show "weighted_names (map Construct hs) = []" by (induction hs) simp_all
qed

lemma weighted_frame [simp]:
  "weighted_names (exp_wiring s) = []" "weighted_names (exp_prepare out) = []"
  "weighted_names (exp_writes s) = []"
  "weighted_names (groom_wiring s) = []" "weighted_names (groom_prepare out) = []"
  "weighted_names (groom_writes s) = []"
  by (simp_all add: exp_wiring_def exp_prepare_def exp_writes_def
      groom_wiring_def groom_prepare_def groom_writes_def)
















lemma exp_process_fst:
  "fst (exp_process s i v) =
     (if s = 0 \<or> 1 \<le> s then EnterStep 1 i # fst (exp_step1 v) else []) @
     (if s = 0 \<or> 2 \<le> s then EnterStep 2 i # fst (exp_step2 v) else []) @
     (if snd (exp_step2 v) = None \<or> \<not> (s = 0 \<or> 2 \<le> s) then
        (if s = 0 \<or> 3 \<le> s then [EnterStep 3 i] else []) @
        (if s = 0 \<or> 4 \<le> s then [EnterStep 4 i] else []) @
        (if s = 0 \<or> 5 \<le> s then [EnterStep 5 i] else [])
      else [])"
  by (auto simp: exp_process_def exp_step1_def fst_andThen snd_andThen split: option.splits)

lemma exp_body_fst:
  "fst (exp_body s t i e) =
     progress i (length (entries t)) @ GetEntry i # fst (exp_process s i (exp_GetEntry s t e))"
  by (simp add: exp_body_def)




lemma groom_process_fst:
  "fst (groom_process fj s i v) =
     (if s = 0 \<or> 1 \<le> s then EnterStep 1 i # fst (groom_step1 v) else []) @
     (if s = 0 \<or> 2 \<le> s then EnterStep 2 i # fst (groom_step2 v) else []) @
     (if (s = 0 \<or> 3 \<le> s) \<and> snd (groom_step2 v) = None
      then EnterStep 3 i # fst (groom_step3 fj s i v) else [])"
  by (auto simp: groom_process_def groom_step1_def fst_andThen snd_andThen split: option.splits)

lemma groom_body_fst:
  "fst (groom_body fj s t i e) =
     progress i (length (entries t)) @ GetEntry i #
     fst (groom_process fj s i (groom_GetEntry s t e))"
  by (simp add: groom_body_def)


lemma notin_subset: "A \<subseteq> B \<Longrightarrow> x \<notin> B \<Longrightarrow> x \<notin> A"
  by auto



lemma groom_wiring_status:
  assumes "k \<in> {1..5}" "b \<in> set (groom_step_branches k)" "0 \<le> s" "s \<le> 5"
  shows "(SetBranchStatus b True \<in> set (groom_wiring s)) = (s = 0 \<or> int k \<le> s)"
  using assms(1)
proof (cases k rule: step_cases)
  case 1 then show ?thesis using assms
    by (auto simp: groom_wiring_def wire_def groom_branches1_def groom_branches2_def groom_branches3_def)
next
  case 2 then show ?thesis using assms
    by (auto simp: groom_wiring_def wire_def groom_branches1_def groom_branches2_def groom_branches3_def)
next
  case 3 then show ?thesis using assms
    by (auto simp: groom_wiring_def wire_def groom_branches1_def groom_branches2_def groom_branches3_def)
next
  case 4 then show ?thesis using assms by simp
next
  case 5 then show ?thesis using assms by simp
qed

lemma groom_wiring_address:
  assumes "k \<in> {1..5}" "b \<in> set (groom_step_branches k)" "0 \<le> s" "s \<le> 5"
  shows "(SetBranchAddress b \<in> set (groom_wiring s)) = (s = 0 \<or> int k \<le> s)"
  using assms(1)
proof (cases k rule: step_cases)
  case 1 then show ?thesis using assms
    by (auto simp: groom_wiring_def wire_def groom_branches1_def groom_branches2_def groom_branches3_def)
next
  case 2 then show ?thesis using assms
    by (auto simp: groom_wiring_def wire_def groom_branches1_def groom_branches2_def groom_branches3_def)
next
  case 3 then show ?thesis using assms
    by (auto simp: groom_wiring_def wire_def groom_branches1_def groom_branches2_def groom_branches3_def)
next
  case 4 then show ?thesis using assms by simp
next
  case 5 then show ?thesis using assms by simp
qed

lemma groom_writes_mem:
  "(Write h \<in> set (groom_writes s)) =
     ((s = 0 \<or> 1 \<le> s) \<and> h \<in> set groom_hists1 \<or> (s = 0 \<or> 2 \<le> s) \<and> h \<in> set groom_hists2 \<or>
      (s = 0 \<or> 3 \<le> s) \<and> h \<in> set groom_hists3 \<or> (s = 0 \<or> 4 \<le> s) \<and> h \<in> set groom_hists4 \<or>
      (s = 0 \<or> 5 \<le> s) \<and> h \<in> set groom_hists5)"
  by (auto simp: groom_writes_def)

lemma groom_writes_step:
  assumes "k \<in> {1..5}" "h \<in> set (groom_step_hists k)" "0 \<le> s" "s \<le> 5"
  shows "(Write h \<in> set (groom_writes s)) = (s = 0 \<or> int k \<le> s)"
  using assms(1)
proof (cases k rule: step_cases)
  case 1 then show ?thesis using assms groom_hists_step [of h] by (auto simp: groom_writes_mem)
next
  case 2 then show ?thesis using assms groom_hists_step [of h] by (auto simp: groom_writes_mem)
next
  case 3 then show ?thesis using assms groom_hists_step [of h] by (auto simp: groom_writes_mem)
next
  case 4 then show ?thesis using assms groom_hists_step [of h] by (auto simp: groom_writes_mem)
next
  case 5 then show ?thesis using assms groom_hists_step [of h] by (auto simp: groom_writes_mem)
qed

lemma groom_step2_in_loop: "list_all in_loop (fst (groom_step2 v))"
  by (auto simp: groom_step2_def vsize_def at0_def fst_andThen split: option.splits list.splits)

lemma groom_step3_in_loop: "list_all in_loop (fst (groom_step3 fj s i v))"
  by (auto simp: groom_step3_def vsize_def fst_andThen snd_andThen
      split: option.splits list.splits sum.splits)

lemma groom_body_in_loop: "list_all in_loop (fst (groom_body fj s t i e))"
  using groom_step2_in_loop [of "groom_GetEntry s t e"]
    groom_step3_in_loop [of fj s i "groom_GetEntry s t e"]
  by (auto simp: groom_body_fst groom_process_fst progress_def groom_step1_def)

lemma groom_loop_in_loop: "list_all in_loop (fst (event_loop (groom_body fj s t) i es))"
  by (intro event_loop_all groom_body_in_loop)

lemma fill_static [simp]:
  "fill_names (wire bs) = []"
  "fill_names (map Write hs) = []"
  "fill_names (map Construct hs) = []"
proof -
  have "fill_names (map (\<lambda>b. SetBranchStatus b True) bs) = []"
    by (induction bs) simp_all
  moreover have "fill_names (map SetBranchAddress bs) = []"
    by (induction bs) simp_all
  ultimately show "fill_names (wire bs) = []" by (simp add: wire_def)
  show "fill_names (map Write hs) = []" by (induction hs) simp_all
  show "fill_names (map Construct hs) = []" by (induction hs) simp_all
qed

lemma fill_frame [simp]:
  "fill_names (exp_wiring s) = []" "fill_names (exp_prepare out) = []"
  "fill_names (exp_writes s) = []"
  "fill_names (groom_wiring s) = []" "fill_names (groom_prepare out) = []"
  "fill_names (groom_writes s) = []"
  by (simp_all add: exp_wiring_def exp_prepare_def exp_writes_def
      groom_wiring_def groom_prepare_def groom_writes_def)

lemma event_loop_fill_names:
  "(\<And>i e. set (fill_names (fst (body i e))) \<subseteq> S) \<Longrightarrow>
   set (fill_names (fst (event_loop body i es))) \<subseteq> S"
  by (induction es arbitrary: i) (auto simp: fst_andThen split: option.splits)

lemma exp_step2_sub: "set (fill_names (fst (exp_step2 v))) \<subseteq> set exp_hists2"
  by (auto simp: exp_step2_def vsize_def at0_def fst_andThen snd_andThen exp_hists2_def
      split: option.splits list.splits)

lemma gated_subset2:
  "set a \<subseteq> set A \<Longrightarrow>
   set ((if p then A1 else []) @ (if q then a else [])) \<subseteq>
     set (if p then A1 else []) \<union> set (if q then A else [])"
  by auto

lemma gated_subset3:
  "set b \<subseteq> set B \<Longrightarrow> set c \<subseteq> set C \<Longrightarrow>
   set ((if p then A else []) @ (if q then b else []) @ (if r \<and> r' then c else [])) \<subseteq>
     set (if p then A else []) \<union> (set (if q then B else []) \<union> set (if r then C else []))"
  by auto

lemma exp_body_fill_sub:
  "set (fill_names (fst (exp_body s t i e))) \<subseteq>
     set (if s = 0 \<or> 1 \<le> s then exp_hists1 else []) \<union>
     set (if s = 0 \<or> 2 \<le> s then exp_hists2 else [])"
  unfolding exp_body_names exp_process_names exp_hists1_def
  by (rule gated_subset2 [OF exp_step2_sub])

lemma groom_body_fill_sub:
  "set (fill_names (fst (groom_body fj s t i e))) \<subseteq>
     set (if s = 0 \<or> 1 \<le> s then groom_hists1 else []) \<union>
     (set (if s = 0 \<or> 2 \<le> s then groom_hists2 else []) \<union>
      set (if s = 0 \<or> 3 \<le> s then groom_hists3 else []))"
  unfolding groom_body_names groom_process_names groom_hists1_def
  by (rule gated_subset3 [OF groom_step2_sub groom_step3_sub])

lemma exp_run_fst:
  assumes "files w fn = Some f" "f tn = Some t" "0 \<le> s" "s \<le> 5"
  shows "fst (exp_run w out s tn fn) =
     exp_wiring s @ exp_prepare out @ fst (event_loop (exp_body s t) 0 (entries t)) @
     (if snd (event_loop (exp_body s t) 0 (entries t)) = None \<and> creatable w out
      then exp_writes s @ [CloseOutput] else [])"
  by (simp add: exp_run_open [OF assms] save_fst)

lemma groom_run_fst:
  assumes "files w fn = Some f" "f tn = Some t" "0 \<le> s" "s \<le> 5"
  shows "fst (groom_run fj w out s tn fn) =
     groom_wiring s @ groom_prepare out @ fst (event_loop (groom_body fj s t) 0 (entries t)) @
     (if snd (event_loop (groom_body fj s t) 0 (entries t)) = None \<and> creatable w out
      then groom_writes s @ [CloseOutput] else [])"
  by (simp add: groom_run_open [OF assms] save_fst)

lemma not_in_loop:
  "list_all in_loop L \<Longrightarrow> \<not> in_loop a \<Longrightarrow> a \<notin> set L"
  by (auto simp: list_all_iff)

lemma exp_later_steps:
  assumes "1 \<le> s" "s \<le> 5" "k \<in> {1..5}" "s < int k"
    and "files w fn = Some f" "f tn = Some t"
  shows "(\<forall>h \<in> set (exp_step_hists k).
            Construct h \<in> set (fst (exp_run w out s tn fn)) \<and>
            Write h \<notin> set (fst (exp_run w out s tn fn)) \<and>
            filter (fills h) (fst (exp_run w out s tn fn)) = []) \<and>
         (\<forall>b \<in> set (exp_step_branches k).
            SetBranchStatus b True \<notin> set (fst (exp_run w out s tn fn)) \<and>
            SetBranchAddress b \<notin> set (fst (exp_run w out s tn fn))) \<and>
         SetBranchStatus ''*'' False \<in> set (fst (exp_run w out s tn fn))"
proof -
  let ?L = "fst (event_loop (exp_body s t) 0 (entries t))"
  let ?T = "fst (exp_run w out s tn fn)"
  have s0: "0 \<le> s" using assms(1) by simp
  note T = exp_run_fst [OF assms(5,6) s0 assms(2), of out]
  have L: "\<And>a. \<not> in_loop a \<Longrightarrow> a \<notin> set ?L"
    by (rule not_in_loop [OF exp_loop_in_loop])
  have ng: "\<not> (s = 0 \<or> int k \<le> s)" using assms(1,4) by simp
  have star: "SetBranchStatus ''*'' False \<in> set ?T"
    using assms(1) by (simp add: T exp_wiring_def)
  have hists: "Construct h \<in> set ?T \<and> Write h \<notin> set ?T \<and> filter (fills h) ?T = []"
    if h: "h \<in> set (exp_step_hists k)" for h
  proof (intro conjI)
    have "h \<in> set (exp_hists1 @ exp_hists2 @ exp_hists3 @ exp_hists4 @ exp_hists5)"
      using h by (auto split: if_splits)
    then show "Construct h \<in> set ?T"
      by (auto simp: T exp_prepare_def image_iff)
    have "Write h \<notin> set (exp_writes s)"
      using exp_writes_step [OF assms(3) h s0 assms(2)] ng by simp
    then show "Write h \<notin> set ?T"
      using L [of "Write h"] by (auto simp: T exp_prepare_def exp_wiring_def wire_def)
    have sub: "set (fill_names ?L) \<subseteq>
        set (if s = 0 \<or> 1 \<le> s then exp_hists1 else []) \<union>
        set (if s = 0 \<or> 2 \<le> s then exp_hists2 else [])"
      by (rule event_loop_fill_names [OF exp_body_fill_sub])
    have "h \<notin> set (if s = 0 \<or> 1 \<le> s then exp_hists1 else []) \<union>
        set (if s = 0 \<or> 2 \<le> s then exp_hists2 else [])"
      using assms(3) 
    proof (cases k rule: step_cases)
      case 1 then show ?thesis using assms(1,4) by simp
    next
      case 2 then show ?thesis using assms(1,4) h exp_hists_step [of h] by auto
    next
      case 3 then show ?thesis using h exp_hists_step [of h] by auto
    next
      case 4 then show ?thesis using h exp_hists_step [of h] by auto
    next
      case 5 then show ?thesis using h exp_hists_step [of h] by auto
    qed
    then have "h \<notin> set (fill_names ?L)" by (rule notin_subset [OF sub])
    then show "filter (fills h) ?T = []"
      by (simp add: no_fill_iff T)
  qed
  have brs: "SetBranchStatus b True \<notin> set ?T \<and> SetBranchAddress b \<notin> set ?T"
    if b: "b \<in> set (exp_step_branches k)" for b
  proof (intro conjI)
    have "SetBranchStatus b True \<notin> set (exp_wiring s)"
      using exp_wiring_status [OF assms(3) b s0 assms(2)] ng by simp
    then show "SetBranchStatus b True \<notin> set ?T"
      using L [of "SetBranchStatus b True"] by (auto simp: T exp_prepare_def exp_writes_def)
    have "SetBranchAddress b \<notin> set (exp_wiring s)"
      using exp_wiring_address [OF assms(3) b s0 assms(2)] ng by simp
    then show "SetBranchAddress b \<notin> set ?T"
      using L [of "SetBranchAddress b"] by (auto simp: T exp_prepare_def exp_writes_def)
  qed
  show ?thesis using hists brs star by blast
qed

lemma groom_later_steps:
  assumes "1 \<le> s" "s \<le> 5" "k \<in> {1..5}" "s < int k"
    and "files w fn = Some f" "f tn = Some t"
  shows "(\<forall>h \<in> set (groom_step_hists k).
            Construct h \<in> set (fst (groom_run fj w out s tn fn)) \<and>
            Write h \<notin> set (fst (groom_run fj w out s tn fn)) \<and>
            filter (fills h) (fst (groom_run fj w out s tn fn)) = []) \<and>
         (\<forall>b \<in> set (groom_step_branches k).
            SetBranchStatus b True \<notin> set (fst (groom_run fj w out s tn fn)) \<and>
            SetBranchAddress b \<notin> set (fst (groom_run fj w out s tn fn))) \<and>
         SetBranchStatus ''*'' False \<in> set (fst (groom_run fj w out s tn fn))"
proof -
  let ?L = "fst (event_loop (groom_body fj s t) 0 (entries t))"
  let ?T = "fst (groom_run fj w out s tn fn)"
  have s0: "0 \<le> s" using assms(1) by simp
  note T = groom_run_fst [OF assms(5,6) s0 assms(2), where out = out and fj = fj]
  have L: "\<And>a. \<not> in_loop a \<Longrightarrow> a \<notin> set ?L"
    by (rule not_in_loop [OF groom_loop_in_loop])
  have ng: "\<not> (s = 0 \<or> int k \<le> s)" using assms(1,4) by simp
  have star: "SetBranchStatus ''*'' False \<in> set ?T"
    using assms(1) by (simp add: T groom_wiring_def)
  have hists: "Construct h \<in> set ?T \<and> Write h \<notin> set ?T \<and> filter (fills h) ?T = []"
    if h: "h \<in> set (groom_step_hists k)" for h
  proof (intro conjI)
    have "h \<in> set (groom_hists1 @ groom_hists2 @ groom_hists3 @ groom_hists4 @ groom_hists5)"
      using h by (auto split: if_splits)
    then show "Construct h \<in> set ?T"
      by (auto simp: T groom_prepare_def image_iff)
    have "Write h \<notin> set (groom_writes s)"
      using groom_writes_step [OF assms(3) h s0 assms(2)] ng by simp
    then show "Write h \<notin> set ?T"
      using L [of "Write h"] by (auto simp: T groom_prepare_def groom_wiring_def wire_def)
    have sub: "set (fill_names ?L) \<subseteq>
        set (if s = 0 \<or> 1 \<le> s then groom_hists1 else []) \<union>
        (set (if s = 0 \<or> 2 \<le> s then groom_hists2 else []) \<union>
         set (if s = 0 \<or> 3 \<le> s then groom_hists3 else []))"
      by (rule event_loop_fill_names [OF groom_body_fill_sub])
    have "h \<notin> set (if s = 0 \<or> 1 \<le> s then groom_hists1 else []) \<union>
        (set (if s = 0 \<or> 2 \<le> s then groom_hists2 else []) \<union>
         set (if s = 0 \<or> 3 \<le> s then groom_hists3 else []))"
      using assms(3) 
    proof (cases k rule: step_cases)
      case 1 then show ?thesis using assms(1,4) by simp
    next
      case 2 then show ?thesis using assms(1,4) h groom_hists_step [of h] by auto
    next
      case 3 then show ?thesis using assms(1,4) h groom_hists_step [of h] by auto
    next
      case 4 then show ?thesis using h groom_hists_step [of h] by auto
    next
      case 5 then show ?thesis using h groom_hists_step [of h] by auto
    qed
    then have "h \<notin> set (fill_names ?L)" by (rule notin_subset [OF sub])
    then show "filter (fills h) ?T = []"
      by (simp add: no_fill_iff T)
  qed
  have brs: "SetBranchStatus b True \<notin> set ?T \<and> SetBranchAddress b \<notin> set ?T"
    if b: "b \<in> set (groom_step_branches k)" for b
  proof (intro conjI)
    have "SetBranchStatus b True \<notin> set (groom_wiring s)"
      using groom_wiring_status [OF assms(3) b s0 assms(2)] ng by simp
    then show "SetBranchStatus b True \<notin> set ?T"
      using L [of "SetBranchStatus b True"] by (auto simp: T groom_prepare_def groom_writes_def)
    have "SetBranchAddress b \<notin> set (groom_wiring s)"
      using groom_wiring_address [OF assms(3) b s0 assms(2)] ng by simp
    then show "SetBranchAddress b \<notin> set ?T"
      using L [of "SetBranchAddress b"] by (auto simp: T groom_prepare_def groom_writes_def)
  qed
  show ?thesis using hists brs star by blast
qed

lemma save_exit0:
  "(snd (save ok wr c) = Exit 0) = (snd c = None \<and> ok)"
  by (simp add: save_def split: option.splits)

lemma exp_earlier_steps:
  assumes "1 \<le> s" "s \<le> 5" "j \<in> {1..5}" "int j \<le> s"
    and "files w fn = Some f" "f tn = Some t"
  shows "(\<forall>h \<in> set (exp_step_hists j).
            Construct h \<in> set (fst (exp_run w out s tn fn)) \<and>
            (snd (exp_run w out s tn fn) = Exit 0 \<longrightarrow>
               Write h \<in> set (fst (exp_run w out s tn fn)))) \<and>
         (\<forall>b \<in> set (exp_step_branches j).
            SetBranchStatus b True \<in> set (fst (exp_run w out s tn fn)) \<and>
            SetBranchAddress b \<in> set (fst (exp_run w out s tn fn)))"
proof -
  let ?T = "fst (exp_run w out s tn fn)"
  have s0: "0 \<le> s" using assms(1) by simp
  note T = exp_run_fst [OF assms(5,6) s0 assms(2), where out = out]
  note R = exp_run_open [OF assms(5,6) s0 assms(2), where out = out]
  have g: "s = 0 \<or> int j \<le> s" using assms(4) by simp
  have hists: "Construct h \<in> set ?T \<and> (snd (exp_run w out s tn fn) = Exit 0 \<longrightarrow> Write h \<in> set ?T)"
    if h: "h \<in> set (exp_step_hists j)" for h
  proof (intro conjI impI)
    have "h \<in> set (exp_hists1 @ exp_hists2 @ exp_hists3 @ exp_hists4 @ exp_hists5)"
      using h by (auto split: if_splits)
    then show "Construct h \<in> set ?T"
      by (auto simp: T exp_prepare_def image_iff)
    assume "snd (exp_run w out s tn fn) = Exit 0"
    then have ok: "snd (event_loop (exp_body s t) 0 (entries t)) = None \<and> creatable w out"
      by (simp add: R save_exit0)
    have "Write h \<in> set (exp_writes s)"
      using exp_writes_step [OF assms(3) h s0 assms(2)] g by simp
    then show "Write h \<in> set ?T" using ok by (simp add: T)
  qed
  have brs: "SetBranchStatus b True \<in> set ?T \<and> SetBranchAddress b \<in> set ?T"
    if b: "b \<in> set (exp_step_branches j)" for b
  proof (intro conjI)
    have "SetBranchStatus b True \<in> set (exp_wiring s)"
      using exp_wiring_status [OF assms(3) b s0 assms(2)] g by simp
    then show "SetBranchStatus b True \<in> set ?T" by (simp add: T)
    have "SetBranchAddress b \<in> set (exp_wiring s)"
      using exp_wiring_address [OF assms(3) b s0 assms(2)] g by simp
    then show "SetBranchAddress b \<in> set ?T" by (simp add: T)
  qed
  show ?thesis using hists brs by blast
qed

lemma groom_earlier_steps:
  assumes "1 \<le> s" "s \<le> 5" "j \<in> {1..5}" "int j \<le> s"
    and "files w fn = Some f" "f tn = Some t"
  shows "(\<forall>h \<in> set (groom_step_hists j).
            Construct h \<in> set (fst (groom_run fj w out s tn fn)) \<and>
            (snd (groom_run fj w out s tn fn) = Exit 0 \<longrightarrow>
               Write h \<in> set (fst (groom_run fj w out s tn fn)))) \<and>
         (\<forall>b \<in> set (groom_step_branches j).
            SetBranchStatus b True \<in> set (fst (groom_run fj w out s tn fn)) \<and>
            SetBranchAddress b \<in> set (fst (groom_run fj w out s tn fn)))"
proof -
  let ?T = "fst (groom_run fj w out s tn fn)"
  have s0: "0 \<le> s" using assms(1) by simp
  note T = groom_run_fst [OF assms(5,6) s0 assms(2), where out = out and fj = fj]
  note R = groom_run_open [OF assms(5,6) s0 assms(2), where out = out and fj = fj]
  have g: "s = 0 \<or> int j \<le> s" using assms(4) by simp
  have hists: "Construct h \<in> set ?T \<and> (snd (groom_run fj w out s tn fn) = Exit 0 \<longrightarrow> Write h \<in> set ?T)"
    if h: "h \<in> set (groom_step_hists j)" for h
  proof (intro conjI impI)
    have "h \<in> set (groom_hists1 @ groom_hists2 @ groom_hists3 @ groom_hists4 @ groom_hists5)"
      using h by (auto split: if_splits)
    then show "Construct h \<in> set ?T"
      by (auto simp: T groom_prepare_def image_iff)
    assume "snd (groom_run fj w out s tn fn) = Exit 0"
    then have ok: "snd (event_loop (groom_body fj s t) 0 (entries t)) = None \<and> creatable w out"
      by (simp add: R save_exit0)
    have "Write h \<in> set (groom_writes s)"
      using groom_writes_step [OF assms(3) h s0 assms(2)] g by simp
    then show "Write h \<in> set ?T" using ok by (simp add: T)
  qed
  have brs: "SetBranchStatus b True \<in> set ?T \<and> SetBranchAddress b \<in> set ?T"
    if b: "b \<in> set (groom_step_branches j)" for b
  proof (intro conjI)
    have "SetBranchStatus b True \<in> set (groom_wiring s)"
      using groom_wiring_status [OF assms(3) b s0 assms(2)] g by simp
    then show "SetBranchStatus b True \<in> set ?T" by (simp add: T)
    have "SetBranchAddress b \<in> set (groom_wiring s)"
      using groom_wiring_address [OF assms(3) b s0 assms(2)] g by simp
    then show "SetBranchAddress b \<in> set ?T" by (simp add: T)
  qed
  show ?thesis using hists brs by blast
qed

text \<open>
  C4 as stated fails: at step 1 the base-jets program constructs the histograms of the
  later steps too (here the first histogram of step 5).
\<close>

theorem later_hists_constructed:
  "Construct ''Step5_DRtruth_reco'' \<in> set (fst (exp_main scenario_world (scenario_argv ''1'')))"
  by (simp add: exp_main_def scenario_argv_def exp_run_fst [where f = scenario_file and t = scenario_tree]
      scenario_world_def scenario_file_def exp_prepare_def exp_hists5_def)

text \<open>
  C4, amended. For a step number \<open>s\<close> in 1..5, both reconstruction programs construct
  the histogram objects of all five steps before the event loop, whatever \<open>s\<close> is.
  For a step \<open>k\<close> beyond \<open>s\<close>, the histograms of step \<open>k\<close> get no fill and are not
  written, and the columns of step \<open>k\<close> are neither activated nor bound after all
  columns were switched off. For a step \<open>j\<close> up to \<open>s\<close>, the columns of step \<open>j\<close>
  are activated and bound, and its histograms are written when the run ends with
  exit code 0. The input file and the tree are taken to open.
\<close>

theorem later_steps_skipped:
  assumes "1 \<le> s" "s \<le> 5" "k \<in> {1..5}" "s < int k" "j \<in> {1..5}" "int j \<le> s"
    and "files w fn = Some f" "f tn = Some t"
    and "files gw fn = Some gf" "gf tn = Some gt"
  shows "((\<forall>h \<in> set (exp_step_hists k).
            Construct h \<in> set (fst (exp_run w out s tn fn)) \<and>
            Write h \<notin> set (fst (exp_run w out s tn fn)) \<and>
            filter (fills h) (fst (exp_run w out s tn fn)) = []) \<and>
          (\<forall>b \<in> set (exp_step_branches k).
            SetBranchStatus b True \<notin> set (fst (exp_run w out s tn fn)) \<and>
            SetBranchAddress b \<notin> set (fst (exp_run w out s tn fn))) \<and>
          SetBranchStatus ''*'' False \<in> set (fst (exp_run w out s tn fn))) \<and>
         ((\<forall>h \<in> set (groom_step_hists k).
            Construct h \<in> set (fst (groom_run fj gw out s tn fn)) \<and>
            Write h \<notin> set (fst (groom_run fj gw out s tn fn)) \<and>
            filter (fills h) (fst (groom_run fj gw out s tn fn)) = []) \<and>
          (\<forall>b \<in> set (groom_step_branches k).
            SetBranchStatus b True \<notin> set (fst (groom_run fj gw out s tn fn)) \<and>
            SetBranchAddress b \<notin> set (fst (groom_run fj gw out s tn fn))) \<and>
          SetBranchStatus ''*'' False \<in> set (fst (groom_run fj gw out s tn fn))) \<and>
         ((\<forall>h \<in> set (exp_step_hists j).
            Construct h \<in> set (fst (exp_run w out s tn fn)) \<and>
            (snd (exp_run w out s tn fn) = Exit 0 \<longrightarrow>
               Write h \<in> set (fst (exp_run w out s tn fn)))) \<and>
          (\<forall>b \<in> set (exp_step_branches j).
            SetBranchStatus b True \<in> set (fst (exp_run w out s tn fn)) \<and>
            SetBranchAddress b \<in> set (fst (exp_run w out s tn fn)))) \<and>
         ((\<forall>h \<in> set (groom_step_hists j).
            Construct h \<in> set (fst (groom_run fj gw out s tn fn)) \<and>
            (snd (groom_run fj gw out s tn fn) = Exit 0 \<longrightarrow>
               Write h \<in> set (fst (groom_run fj gw out s tn fn)))) \<and>
          (\<forall>b \<in> set (groom_step_branches j).
            SetBranchStatus b True \<in> set (fst (groom_run fj gw out s tn fn)) \<and>
            SetBranchAddress b \<in> set (fst (groom_run fj gw out s tn fn))))"
proof -
  note E = exp_later_steps [OF assms(1-4) assms(7,8), where out = out]
  note G = groom_later_steps [OF assms(1-4) assms(9,10), where fj = fj and out = out]
  note E' = exp_earlier_steps [OF assms(1,2) assms(5,6) assms(7,8), where out = out]
  note G' = groom_earlier_steps [OF assms(1,2) assms(5,6) assms(9,10), where fj = fj and out = out]
  show ?thesis
    by (rule conjI [OF E conjI [OF G conjI [OF E' G']]])
qed

theorem later_steps_skipped_witness:
  "Construct ''Step2_RecoJet_pt'' \<in> set (fst (exp_run scenario_world ''out.root'' 1 ''tree'' ''in.root'')) \<and>
   Write ''Step2_RecoJet_pt'' \<notin> set (fst (exp_run scenario_world ''out.root'' 1 ''tree'' ''in.root'')) \<and>
   filter (fills ''Step2_RecoJet_pt'') (fst (exp_run scenario_world ''out.root'' 1 ''tree'' ''in.root'')) = [] \<and>
   SetBranchStatus ''RecoJets_R4_pt'' True \<notin> set (fst (exp_run scenario_world ''out.root'' 1 ''tree'' ''in.root'')) \<and>
   Construct ''Step2_UngroomMass'' \<in>
     set (fst (groom_run toy_fastjet (groom_demo_world 2) ''out.root'' 1 ''tree'' ''in.root'')) \<and>
   Write ''Step2_UngroomMass'' \<notin>
     set (fst (groom_run toy_fastjet (groom_demo_world 2) ''out.root'' 1 ''tree'' ''in.root'')) \<and>
   SetBranchAddress ''RecoJets_R10_m'' \<notin>
     set (fst (groom_run toy_fastjet (groom_demo_world 2) ''out.root'' 1 ''tree'' ''in.root'')) \<and>
   Construct ''Step1_mu'' \<in> set (fst (exp_run scenario_world ''out.root'' 1 ''tree'' ''in.root'')) \<and>
   SetBranchAddress ''NPV'' \<in> set (fst (exp_run scenario_world ''out.root'' 1 ''tree'' ''in.root''))"
proof -
  let ?gt = "groom_demo_tree \<lparr> entries := [groom_demo_event \<lparr> col_EventWeight := 2 \<rparr>] \<rparr>"
  let ?gf = "\<lambda>tn. if tn = ''tree'' then Some ?gt else None"
  have f: "files scenario_world ''in.root'' = Some scenario_file"
    "scenario_file ''tree'' = Some scenario_tree"
    "files (groom_demo_world 2) ''in.root'' = Some ?gf" "?gf ''tree'' = Some ?gt"
    by (simp_all add: scenario_world_def scenario_file_def groom_demo_world_def)
  have n: "(1::int) \<le> 1" "(1::int) \<le> 5" "(2::nat) \<in> {1..5}" "(1::int) < int 2"
    "(1::nat) \<in> {1..5}" "int 1 \<le> 1"
    by simp_all
  note W = later_steps_skipped [OF n f, where out = "''out.root''" and fj = toy_fastjet]
  note E = W [THEN conjunct1]
  note G = W [THEN conjunct2, THEN conjunct1]
  note E' = W [THEN conjunct2, THEN conjunct2, THEN conjunct1]
  have h2: "''Step2_RecoJet_pt'' \<in> set (exp_step_hists 2)" by (simp add: exp_hists2_def)
  have b2: "''RecoJets_R4_pt'' \<in> set (exp_step_branches 2)" by (simp add: exp_branches2_def)
  have g2: "''Step2_UngroomMass'' \<in> set (groom_step_hists 2)" by (simp add: groom_hists2_def)
  have gb2: "''RecoJets_R10_m'' \<in> set (groom_step_branches 2)" by (simp add: groom_branches2_def)
  have h1: "''Step1_mu'' \<in> set (exp_step_hists 1)" by (simp add: exp_hists1_def)
  have b1: "''NPV'' \<in> set (exp_step_branches 1)" by (simp add: exp_branches1_def)
  note a = E [THEN conjunct1, THEN bspec, OF h2]
  note b = E [THEN conjunct2, THEN conjunct1, THEN bspec, OF b2]
  note c = G [THEN conjunct1, THEN bspec, OF g2]
  note d = G [THEN conjunct2, THEN conjunct1, THEN bspec, OF gb2]
  note e = E' [THEN conjunct1, THEN bspec, OF h1]
  note g = E' [THEN conjunct2, THEN bspec, OF b1]
  show ?thesis
    by (rule conjI [OF a [THEN conjunct1] conjI [OF a [THEN conjunct2, THEN conjunct1]
          conjI [OF a [THEN conjunct2, THEN conjunct2] conjI [OF b [THEN conjunct1]
          conjI [OF c [THEN conjunct1] conjI [OF c [THEN conjunct2, THEN conjunct1]
          conjI [OF d [THEN conjunct2] conjI [OF e [THEN conjunct1] g [THEN conjunct2]]]]]]]]])
qed

lemma fills_any_simps [simp]:
  "fills_any hs (Fill n x) = (n \<in> set hs)"
  "fills_any hs (FillW n x wt) = (n \<in> set hs)"
  "fills_any hs (Fill2 n x y) = (n \<in> set hs)"
  "fills_any hs (Printf m) = False"
  "fills_any hs (GetEntry i) = False"
  "fills_any hs (EnterStep k i) = False"
  "fills_any hs (SetBranchStatus b on) = False"
  "fills_any hs (SetBranchAddress b) = False"
  "fills_any hs (OpenOutput out) = False"
  "fills_any hs (Construct n) = False"
  "fills_any hs (Write n) = False"
  "fills_any hs CloseOutput = False"
  by (auto simp: fills_any_def list_ex_iff)

lemma filter_any_nil: "fill_names tr = [] \<Longrightarrow> filter (fills_any hs) tr = []"
proof (induction tr)
  case Nil
  then show ?case by simp
next
  case (Cons a tr)
  then show ?case by (cases a) (simp_all add: fill_names_def fills_any_def list_ex_iff)
qed

lemma exp_step2_exact:
  assumes "RecoJet_pt v = Some r" "TruthJet_pt v = Some tr"
  shows "exp_step2 v =
    ((case r of [] \<Rightarrow> [] | pt # _ \<Rightarrow> [Fill ''Step2_RecoJet_pt_noweight'' pt,
                   FillW ''Step2_RecoJet_pt'' pt (EventWeight v)]) @
     (case tr of [] \<Rightarrow> [] | pt # _ \<Rightarrow> [Fill ''Step2_TruthJet_pt_noweight'' pt,
                   FillW ''Step2_TruthJet_pt'' pt (EventWeight v)]), None)"
  using assms
  by (simp add: exp_step2_def vsize_def at0_def andThen_def emit_def skip_def
      split: list.splits)

lemma exp_body_exact:
  assumes "''mu_average'' \<in> set (branches t)" "''NPV'' \<in> set (branches t)"
    and "s = 0 \<or> 2 \<le> s \<Longrightarrow> ''EventWeight'' \<in> set (branches t) \<and>
           ''RecoJets_R4_pt'' \<in> set (branches t) \<and> ''TruthJets_R4_pt'' \<in> set (branches t)"
    and "0 \<le> s"
  shows "fst (exp_body s t i e) =
     progress i (length (entries t)) @ GetEntry i #
     (EnterStep 1 i # exp_fills1 e) @
     (if s = 0 \<or> 2 \<le> s then EnterStep 2 i # exp_fills2 e else []) @
     (if s = 0 \<or> 3 \<le> s then [EnterStep 3 i] else []) @
     (if s = 0 \<or> 4 \<le> s then [EnterStep 4 i] else []) @
     (if s = 0 \<or> 5 \<le> s then [EnterStep 5 i] else [])"
proof -
  let ?v = "exp_GetEntry s t e"
  have g1: "s = 0 \<or> 1 \<le> s" using assms(4) by arith
  have s1: "fst (exp_step1 ?v) = exp_fills1 e"
    using g1 assms(1,2) by (simp add: exp_step1_def exp_fills1_def exp_GetEntry_def emit_def)
  show ?thesis
  proof (cases "s = 0 \<or> 2 \<le> s")
    case True
    note c2 = assms(3) [OF True]
    have v: "RecoJet_pt ?v = Some (RecoJets_R4_pt e)" "TruthJet_pt ?v = Some (TruthJets_R4_pt e)"
      "EventWeight ?v = col_EventWeight e"
      using True c2 by (simp_all add: exp_GetEntry_def)
    have s2: "exp_step2 ?v = (exp_fills2 e, None)"
      unfolding exp_step2_exact [OF v(1,2)] v(3) exp_fills2_def ..
    show ?thesis
      unfolding exp_body_fst exp_process_fst s1 s2 using True g1 by simp
  next
    case False
    show ?thesis
      unfolding exp_body_fst exp_process_fst s1 using False g1 by simp
  qed
qed

lemma exp_body_filter:
  assumes "''mu_average'' \<in> set (branches t)" "''NPV'' \<in> set (branches t)"
    and "s = 0 \<or> 2 \<le> s \<Longrightarrow> ''EventWeight'' \<in> set (branches t) \<and>
           ''RecoJets_R4_pt'' \<in> set (branches t) \<and> ''TruthJets_R4_pt'' \<in> set (branches t)"
    and "0 \<le> s"
  shows "filter (fills_any hs) (fst (exp_body s t i e)) =
     filter (fills_any hs) (exp_fills1 e) @
     (if s = 0 \<or> 2 \<le> s then filter (fills_any hs) (exp_fills2 e) else [])"
proof -
  note E = exp_body_exact [OF assms, of i e]
  show ?thesis
    by (simp only: E) (simp add: progress_def)
qed

lemma exp_fills1_step:
  assumes "k \<in> {1..5}"
  shows "filter (fills_any (exp_step_hists k)) (exp_fills1 e) = (if k = 1 then exp_fills1 e else [])"
  using assms
proof (cases k rule: step_cases)
  case 1 then show ?thesis by (simp add: exp_fills1_def exp_hists1_def)
next
  case 2 then show ?thesis by (simp add: exp_fills1_def exp_hists2_def)
next
  case 3 then show ?thesis by (simp add: exp_fills1_def exp_hists3_def)
next
  case 4 then show ?thesis by (simp add: exp_fills1_def exp_hists4_def)
next
  case 5 then show ?thesis by (simp add: exp_fills1_def exp_hists5_def)
qed

lemma exp_fills2_step:
  assumes "k \<in> {1..5}"
  shows "filter (fills_any (exp_step_hists k)) (exp_fills2 e) = (if k = 2 then exp_fills2 e else [])"
  using assms
proof (cases k rule: step_cases)
  case 1 then show ?thesis by (simp add: exp_fills2_def exp_hists1_def split: list.splits)
next
  case 2 then show ?thesis by (simp add: exp_fills2_def exp_hists2_def split: list.splits)
next
  case 3 then show ?thesis by (simp add: exp_fills2_def exp_hists3_def split: list.splits)
next
  case 4 then show ?thesis by (simp add: exp_fills2_def exp_hists4_def split: list.splits)
next
  case 5 then show ?thesis by (simp add: exp_fills2_def exp_hists5_def split: list.splits)
qed

lemma exp_body_step_fills:
  assumes "''mu_average'' \<in> set (branches t)" "''NPV'' \<in> set (branches t)"
    and "s = 0 \<or> 2 \<le> s \<Longrightarrow> ''EventWeight'' \<in> set (branches t) \<and>
           ''RecoJets_R4_pt'' \<in> set (branches t) \<and> ''TruthJets_R4_pt'' \<in> set (branches t)"
    and "0 \<le> s" "k \<in> {1..5}"
  shows "filter (fills_any (exp_step_hists k)) (fst (exp_body s t i e)) =
     (if s = 0 \<or> int k \<le> s then exp_step_fills k e else [])"
proof -
  have g1: "s = 0 \<or> 1 \<le> s" using assms(4) by arith
  note F = exp_body_filter [OF assms(1-4), of "exp_step_hists k" i e]
  have G: "filter (fills_any (exp_step_hists k)) (fst (exp_body s t i e)) =
      (if k = 1 then exp_fills1 e else []) @
      (if s = 0 \<or> 2 \<le> s then (if k = 2 then exp_fills2 e else []) else [])"
    by (simp only: F exp_fills1_step [OF assms(5)] exp_fills2_step [OF assms(5)])
  show ?thesis using assms(5)
  proof (cases k rule: step_cases)
    case 1 show ?thesis unfolding G exp_step_fills_def using 1 g1 by simp
  next
    case 2 show ?thesis unfolding G exp_step_fills_def using 2 g1 by simp
  next
    case 3 show ?thesis unfolding G exp_step_fills_def using 3 g1 by simp
  next
    case 4 show ?thesis unfolding G exp_step_fills_def using 4 g1 by simp
  next
    case 5 show ?thesis unfolding G exp_step_fills_def using 5 g1 by simp
  qed
qed

lemma event_loop_concat:
  assumes "\<And>i e. snd (body i e) = None" and "\<And>i e. filter P (fst (body i e)) = g e"
  shows "filter P (fst (event_loop body i es)) = concat (map g es)"
  by (induction es arbitrary: i) (simp_all add: fst_andThen assms skip_def)

lemma filter_any_frame [simp]:
  "filter (fills_any hs) (exp_wiring s) = []" "filter (fills_any hs) (exp_prepare out) = []"
  "filter (fills_any hs) (exp_writes s) = []"
  by (simp_all add: filter_any_nil)

lemma exp_loop_step_fills:
  assumes "''mu_average'' \<in> set (branches t)" "''NPV'' \<in> set (branches t)"
    and "s = 0 \<or> 2 \<le> s \<Longrightarrow> ''EventWeight'' \<in> set (branches t) \<and>
           ''RecoJets_R4_pt'' \<in> set (branches t) \<and> ''TruthJets_R4_pt'' \<in> set (branches t)"
    and "0 \<le> s" "k \<in> {1..5}"
  shows "filter (fills_any (exp_step_hists k)) (fst (event_loop (exp_body s t) i es)) =
     (if s = 0 \<or> int k \<le> s then concat (map (exp_step_fills k) es) else [])"
proof -
  have ok: "\<And>i e. snd (exp_body s t i e) = None"
    using assms(3) by (intro exp_body_ok) simp
  have "filter (fills_any (exp_step_hists k)) (fst (event_loop (exp_body s t) i es)) =
      concat (map (\<lambda>e. if s = 0 \<or> int k \<le> s then exp_step_fills k e else []) es)"
    by (rule event_loop_concat [OF ok exp_body_step_fills [OF assms]])
  also have "\<dots> = (if s = 0 \<or> int k \<le> s then concat (map (exp_step_fills k) es) else [])"
    by (induction es) simp_all
  finally show ?thesis .
qed

text \<open>
  C1. Stage gating in the base-jets reconstruction program. A step number outside 0..5
  ends the program with exit code 1 after the one message, before anything is opened
  or processed. For a step number in 0..5, a step \<open>k\<close> in 1..5, and an input whose
  file and tree open:
  \<^item> each column of step \<open>k\<close> is activated and bound exactly when the step number is 0
    or at least \<open>k\<close>;
  \<^item> when the tree holds the two jet-pT columns that the loop dereferences in step 2
    (needed only if step 2 runs; without them the first event ends the run with a null
    pointer), the block of step \<open>k\<close> is entered for every event exactly when the step
    number is 0 or at least \<open>k\<close>;
  \<^item> when moreover the tree holds the pile-up columns and, if step 2 runs, the weight
    column, the fill calls made on the histograms of step \<open>k\<close> during the whole run
    are exactly those of the block of step \<open>k\<close>, event after event, when the step
    number is 0 or at least \<open>k\<close>, and there is none otherwise. The blocks of steps
    3, 4 and 5 hold no statement, so their histograms get no fill at any step number;
  \<^item> when moreover the output file can be created (the program calls a method of the
    file pointer without testing it), the run ends with exit code 0 and each histogram
    of step \<open>k\<close> is written exactly when the step number is 0 or at least \<open>k\<close>.
\<close>

theorem exp_stage_gating:
  assumes "5 \<le> length argv"
    and "stepNum = int_of_long (atol (argv ! 2))"
  shows "(stepNum < 0 \<or> 5 < stepNum \<longrightarrow>
            exp_main w argv = ([Printf (InvalidStep stepNum)], Exit 1)) \<and>
         (0 \<le> stepNum \<and> stepNum \<le> 5 \<and> k \<in> {1..5} \<and>
          files w (argv ! 4) = Some inFile \<and> inFile (argv ! 3) = Some inTree \<longrightarrow>
          (\<forall>b \<in> set (exp_step_branches k).
             (SetBranchStatus b True \<in> set (fst (exp_main w argv))) = (stepNum = 0 \<or> int k \<le> stepNum) \<and>
             (SetBranchAddress b \<in> set (fst (exp_main w argv))) = (stepNum = 0 \<or> int k \<le> stepNum)) \<and>
          ((stepNum = 0 \<or> 2 \<le> stepNum \<longrightarrow>
             ''RecoJets_R4_pt'' \<in> set (branches inTree) \<and>
             ''TruthJets_R4_pt'' \<in> set (branches inTree)) \<longrightarrow>
           (\<forall>i < length (entries inTree).
              (EnterStep k i \<in> set (fst (exp_main w argv))) = (stepNum = 0 \<or> int k \<le> stepNum)) \<and>
           (''mu_average'' \<in> set (branches inTree) \<and> ''NPV'' \<in> set (branches inTree) \<and>
            (stepNum = 0 \<or> 2 \<le> stepNum \<longrightarrow> ''EventWeight'' \<in> set (branches inTree)) \<longrightarrow>
              filter (fills_any (exp_step_hists k)) (fst (exp_main w argv)) =
                (if stepNum = 0 \<or> int k \<le> stepNum
                 then concat (map (exp_step_fills k) (entries inTree)) else [])) \<and>
           (creatable w (argv ! 1) \<longrightarrow>
              snd (exp_main w argv) = Exit 0 \<and>
              (\<forall>h \<in> set (exp_step_hists k).
                 (Write h \<in> set (fst (exp_main w argv))) = (stepNum = 0 \<or> int k \<le> stepNum)))))"
proof (intro conjI impI)
  assume "stepNum < 0 \<or> 5 < stepNum"
  then show "exp_main w argv = ([Printf (InvalidStep stepNum)], Exit 1)"
    using assms by (simp add: exp_main_def exp_run_def)
next
  assume h: "0 \<le> stepNum \<and> stepNum \<le> 5 \<and> k \<in> {1..5} \<and>
          files w (argv ! 4) = Some inFile \<and> inFile (argv ! 3) = Some inTree"
  let ?L = "fst (event_loop (exp_body stepNum inTree) 0 (entries inTree))"
  let ?T = "fst (exp_main w argv)"
  have s: "0 \<le> stepNum" "stepNum \<le> 5" and k: "k \<in> {1..5}"
    and f: "files w (argv ! 4) = Some inFile" "inFile (argv ! 3) = Some inTree"
    using h by simp_all
  have m: "exp_main w argv = exp_run w (argv ! 1) stepNum (argv ! 3) (argv ! 4)"
    using assms by (simp add: exp_main_def)
  have T: "?T = exp_wiring stepNum @ exp_prepare (argv ! 1) @ ?L @
     (if snd (event_loop (exp_body stepNum inTree) 0 (entries inTree)) = None \<and> creatable w (argv ! 1)
      then exp_writes stepNum @ [CloseOutput] else [])"
    unfolding m by (rule exp_run_fst [OF f s])
  have noL: "\<And>a. \<not> in_loop a \<Longrightarrow> a \<notin> set ?L"
    by (rule not_in_loop [OF exp_loop_in_loop])
  show "\<forall>b \<in> set (exp_step_branches k).
             (SetBranchStatus b True \<in> set ?T) = (stepNum = 0 \<or> int k \<le> stepNum) \<and>
             (SetBranchAddress b \<in> set ?T) = (stepNum = 0 \<or> int k \<le> stepNum)"
  proof
    fix b assume b: "b \<in> set (exp_step_branches k)"
    have 1: "(SetBranchStatus b True \<in> set ?T) = (SetBranchStatus b True \<in> set (exp_wiring stepNum))"
      using noL [of "SetBranchStatus b True"] by (auto simp: T exp_prepare_def exp_writes_def)
    have 2: "(SetBranchAddress b \<in> set ?T) = (SetBranchAddress b \<in> set (exp_wiring stepNum))"
      using noL [of "SetBranchAddress b"] by (auto simp: T exp_prepare_def exp_writes_def)
    show "(SetBranchStatus b True \<in> set ?T) = (stepNum = 0 \<or> int k \<le> stepNum) \<and>
             (SetBranchAddress b \<in> set ?T) = (stepNum = 0 \<or> int k \<le> stepNum)"
      unfolding 1 2 exp_wiring_status [OF k b s] exp_wiring_address [OF k b s] by simp
  qed
  assume c: "stepNum = 0 \<or> 2 \<le> stepNum \<longrightarrow>
             ''RecoJets_R4_pt'' \<in> set (branches inTree) \<and>
             ''TruthJets_R4_pt'' \<in> set (branches inTree)"
  have cols: "stepNum = 0 \<or> 2 \<le> stepNum \<Longrightarrow> ''RecoJets_R4_pt'' \<in> set (branches inTree) \<and>
             ''TruthJets_R4_pt'' \<in> set (branches inTree)"
    using c by (rule mp)
  have ok: "snd (event_loop (exp_body stepNum inTree) 0 (entries inTree)) = None"
    using cols by (intro event_loop_ok exp_body_ok)
  show "\<forall>i < length (entries inTree).
             (EnterStep k i \<in> set ?T) = (stepNum = 0 \<or> int k \<le> stepNum)"
  proof (intro allI impI)
    fix i assume i: "i < length (entries inTree)"
    have "(EnterStep k i \<in> set ?T) = (EnterStep k i \<in> set ?L)"
      by (auto simp: T exp_prepare_def exp_writes_def exp_wiring_def wire_def)
    also have "\<dots> = (\<exists>n < length (entries inTree).
        EnterStep k i \<in> set (fst (exp_body stepNum inTree (0 + n) (entries inTree ! n))))"
      using cols by (intro event_loop_mem exp_body_ok)
    also have "\<dots> = (stepNum = 0 \<or> int k \<le> stepNum)"
      using k i cols by (auto simp: exp_body_enter)
    finally show "(EnterStep k i \<in> set ?T) = (stepNum = 0 \<or> int k \<le> stepNum)" .
  qed
  {
    assume v: "''mu_average'' \<in> set (branches inTree) \<and> ''NPV'' \<in> set (branches inTree) \<and>
            (stepNum = 0 \<or> 2 \<le> stepNum \<longrightarrow> ''EventWeight'' \<in> set (branches inTree))"
    have c2: "stepNum = 0 \<or> 2 \<le> stepNum \<Longrightarrow> ''EventWeight'' \<in> set (branches inTree) \<and>
           ''RecoJets_R4_pt'' \<in> set (branches inTree) \<and> ''TruthJets_R4_pt'' \<in> set (branches inTree)"
      using v cols by simp
    note F = exp_loop_step_fills [OF v [THEN conjunct1] v [THEN conjunct2, THEN conjunct1] c2 s(1) k,
        of 0 "entries inTree"]
    have "filter (fills_any (exp_step_hists k)) ?T = filter (fills_any (exp_step_hists k)) ?L"
      unfolding T by (simp del: exp_step_hists.simps)
    then show "filter (fills_any (exp_step_hists k)) ?T =
                (if stepNum = 0 \<or> int k \<le> stepNum
                 then concat (map (exp_step_fills k) (entries inTree)) else [])"
      by (simp only: F)
  }
  assume cr: "creatable w (argv ! 1)"
  show "snd (exp_main w argv) = Exit 0"
    unfolding m exp_run_open [OF f s] save_snd using ok cr by (simp add: snd_andThen)
  show "\<forall>h \<in> set (exp_step_hists k).
             (Write h \<in> set ?T) = (stepNum = 0 \<or> int k \<le> stepNum)"
  proof
    fix n assume n: "n \<in> set (exp_step_hists k)"
    have "(Write n \<in> set ?T) = (Write n \<in> set (exp_writes stepNum))"
      using noL [of "Write n"] ok cr by (auto simp: T exp_prepare_def exp_wiring_def wire_def)
    then show "(Write n \<in> set ?T) = (stepNum = 0 \<or> int k \<le> stepNum)"
      by (simp only: exp_writes_step [OF k n s])
  qed
qed

theorem exp_stage_gating_witness:
  "filter (fills_any (exp_step_hists 2)) (fst (exp_main scenario_world (scenario_argv ''3''))) =
     [Fill ''Step2_RecoJet_pt_noweight'' 45000, FillW ''Step2_RecoJet_pt'' 45000 2,
      Fill ''Step2_TruthJet_pt_noweight'' 50000, FillW ''Step2_TruthJet_pt'' 50000 2] \<and>
   filter (fills_any (exp_step_hists 2)) (fst (exp_main scenario_world (scenario_argv ''1''))) = [] \<and>
   filter (fills_any (exp_step_hists 1)) (fst (exp_main scenario_world (scenario_argv ''1''))) =
     [Fill ''Step1_mu'' 20, Fill ''Step1_npv'' 10, Fill2 ''Step1_mu_npv'' 20 10] \<and>
   snd (exp_main scenario_world (scenario_argv ''3'')) = Exit 0 \<and>
   SetBranchStatus ''TrackJets_R4_pt'' True \<notin> set (fst (exp_main scenario_world (scenario_argv ''3''))) \<and>
   SetBranchStatus ''TruthJets_R4_pt'' True \<in> set (fst (exp_main scenario_world (scenario_argv ''3''))) \<and>
   EnterStep 4 0 \<notin> set (fst (exp_main scenario_world (scenario_argv ''3''))) \<and>
   EnterStep 3 0 \<in> set (fst (exp_main scenario_world (scenario_argv ''3''))) \<and>
   Write ''Step4_TrackJet_pt'' \<notin> set (fst (exp_main scenario_world (scenario_argv ''3''))) \<and>
   Write ''Step3_RecoJets_njets_2D'' \<in> set (fst (exp_main scenario_world (scenario_argv ''3''))) \<and>
   exp_main scenario_world (scenario_argv ''7'') = ([Printf (InvalidStep 7)], Exit 1)"
  using exp_stage_gating [where argv = "scenario_argv ''3''" and stepNum = 3 and w = scenario_world
      and k = 4 and inFile = scenario_file and inTree = scenario_tree]
    exp_stage_gating [where argv = "scenario_argv ''3''" and stepNum = 3 and w = scenario_world
      and k = 2 and inFile = scenario_file and inTree = scenario_tree]
    exp_stage_gating [where argv = "scenario_argv ''3''" and stepNum = 3 and w = scenario_world
      and k = 3 and inFile = scenario_file and inTree = scenario_tree]
    exp_stage_gating [where argv = "scenario_argv ''1''" and stepNum = 1 and w = scenario_world
      and k = 2 and inFile = scenario_file and inTree = scenario_tree]
    exp_stage_gating [where argv = "scenario_argv ''1''" and stepNum = 1 and w = scenario_world
      and k = 1 and inFile = scenario_file and inTree = scenario_tree]
    exp_stage_gating [where argv = "scenario_argv ''7''" and stepNum = 7 and w = scenario_world]
  by (simp add: scenario_argv_def scenario_world_def scenario_file_def scenario_tree_def
      scenario_event_def exp_step_fills_def exp_fills1_def exp_fills2_def
      exp_columns_def exp_branches1_def exp_branches2_def exp_branches4_def
      exp_hists1_def exp_hists2_def exp_hists3_def exp_hists4_def)

end
